theory Spec2Isabelle
  imports Main
begin

section \<open>Strings\<close>

text \<open>
  A Go string is read by \<^verbatim>\<open>strings.Fields\<close>, \<^verbatim>\<open>strings.ToLower\<close> and the
  \<^verbatim>\<open>regexp\<close> package as a sequence of Unicode code points (runes), so a string is
  modelled as the list of its code points. \<open>str\<close> turns an ASCII literal into such a list.
\<close>

type_synonym rune = nat
type_synonym gostring = "rune list"

definition str :: "string \<Rightarrow> gostring" where
  "str s = map of_char s"

text \<open>
  \<^verbatim>\<open>unicode.IsSpace\<close>: in Latin-1 the runes tab, line feed, vertical tab, form feed,
  carriage return, space, U+0085 and U+00A0; above it the runes with the property
  White\_Space.
\<close>

definition isSpace :: "rune \<Rightarrow> bool" where
  "isSpace r \<longleftrightarrow>
     r = 9 \<or> r = 10 \<or> r = 11 \<or> r = 12 \<or> r = 13 \<or> r = 32 \<or> r = 133 \<or> r = 160 \<or>
     r = 5760 \<or> (8192 \<le> r \<and> r \<le> 8202) \<or> r = 8232 \<or> r = 8233 \<or> r = 8239 \<or>
     r = 8287 \<or> r = 12288"

text \<open>
  \<^verbatim>\<open>strings.Fields\<close>: the maximal runs of non-space runes, in order. \<open>cur\<close> is the
  field being read.
\<close>

fun fields_from :: "gostring \<Rightarrow> gostring \<Rightarrow> gostring list" where
  "fields_from cur [] = (if cur = [] then [] else [cur])"
| "fields_from cur (c # cs) =
     (if isSpace c then (if cur = [] then fields_from [] cs else cur # fields_from [] cs)
      else fields_from (cur @ [c]) cs)"

definition Fields :: "gostring \<Rightarrow> gostring list" where
  "Fields s = fields_from [] s"

text \<open>\<^verbatim>\<open>strings.Join\<close>.\<close>

fun Join :: "gostring list \<Rightarrow> gostring \<Rightarrow> gostring" where
  "Join [] sep = []"
| "Join [e] sep = e"
| "Join (e # es) sep = e @ sep @ Join es sep"

text \<open>
  \<^verbatim>\<open>strings.ToLower\<close> maps every rune through \<^verbatim>\<open>unicode.ToLower\<close>: an ASCII rune is
  lowered by the rule written in the library's code, any other rune by the Unicode case
  tables, which are a parameter \<open>tbl\<close> here.
\<close>

definition toLowerRune :: "(rune \<Rightarrow> rune) \<Rightarrow> rune \<Rightarrow> rune" where
  "toLowerRune tbl r =
     (if r \<le> 127 then (if 65 \<le> r \<and> r \<le> 90 then r + 32 else r) else tbl r)"

definition ToLower :: "(rune \<Rightarrow> rune) \<Rightarrow> gostring \<Rightarrow> gostring" where
  "ToLower tbl s = map (toLowerRune tbl) s"

text \<open>
  The character class of the pattern \<^verbatim>\<open>[^-a-z0-9]+\<close> is the complement of
  \<open>slugRune\<close>; replacing every match by the empty string keeps exactly the runes of
  the class's complement.
\<close>

definition slugRune :: "rune \<Rightarrow> bool" where
  "slugRune r \<longleftrightarrow> r = 45 \<or> (97 \<le> r \<and> r \<le> 122) \<or> (48 \<le> r \<and> r \<le> 57)"

definition ReplaceAllString_nonslug :: "gostring \<Rightarrow> gostring" where
  "ReplaceAllString_nonslug s = filter slugRune s"

definition buildTraktListName :: "(rune \<Rightarrow> rune) \<Rightarrow> gostring \<Rightarrow> gostring" where
  "buildTraktListName tbl imdbListName =
     (let formatted = ToLower tbl (Join (Fields imdbListName) (str ''-''))
      in ReplaceAllString_nonslug formatted)"

text \<open>\<^verbatim>\<open>strings.Split\<close> with a separator of one rune; \<open>cur\<close> is the piece being read.\<close>

fun split_from :: "rune \<Rightarrow> gostring \<Rightarrow> gostring \<Rightarrow> gostring list" where
  "split_from sep cur [] = [cur]"
| "split_from sep cur (c # cs) =
     (if c = sep then cur # split_from sep [] cs else split_from sep (cur @ [c]) cs)"

definition Split :: "gostring \<Rightarrow> rune \<Rightarrow> gostring list" where
  "Split s sep = split_from sep [] s"

text \<open>Indexing a slice: \<open>None\<close> stands for the run-time panic "index out of range".\<close>

definition at :: "'a list \<Rightarrow> nat \<Rightarrow> 'a option" where
  "at xs i = (if i < length xs then Some (xs ! i) else None)"

text \<open>The verb \<^verbatim>\<open>%d\<close> of \<^verbatim>\<open>fmt.Sprintf\<close> on a status code.\<close>

fun decimal :: "nat \<Rightarrow> gostring" where
  "decimal n = (if n < 10 then [48 + n] else decimal (n div 10) @ [48 + n mod 10])"

declare decimal.simps [simp del]

section \<open>Errors, results and the log\<close>

text \<open>
  \<open>ApiError\<close> carries client name, method, URL, status code and details.
  \<open>Errorf msg cause\<close> is \<^verbatim>\<open>fmt.Errorf(msg + ": %w", cause)\<close>, where the cause may be
  \<^verbatim>\<open>nil\<close>. \<open>LibraryError\<close> is an error value made by a library.
\<close>

datatype err =
    ApiError gostring gostring gostring nat gostring
  | Errorf gostring "err option"
  | LibraryError gostring

text \<open>
  What a call does: it panics, returns a non-nil error, or returns a value with a
  \<^verbatim>\<open>nil\<close> error.
\<close>

datatype 'a result = Panic | Err err | Ok 'a

datatype log_entry = Info gostring | Error gostring err

section \<open>Data\<close>

type_synonym time = "int \<times> nat \<times> nat"

record ImdbItem =
  Id :: gostring
  TitleType :: gostring
  Rating :: "int option"
  RatingDate :: "time option"

record ImdbList =
  ListName :: gostring
  ListId :: gostring
  ListItems :: "ImdbItem list"
  IsWatchlist :: bool
  TraktListSlug :: gostring

record RequestFields =
  Method :: gostring
  Endpoint :: gostring
  Path :: gostring
  Url :: gostring

record ImdbConfig =
  CookieAtMain :: gostring
  CookieUbidMain :: gostring
  UserId :: gostring
  WatchlistId :: gostring

text \<open>An \<^verbatim>\<open>http.Request\<close> and an \<^verbatim>\<open>http.Response\<close>, with the fields the client reads.\<close>

record request =
  req_Method :: gostring
  req_URL :: gostring

record response =
  StatusCode :: nat
  Header_ContentDisposition :: gostring
  Body :: gostring
  Request :: request

section \<open>The libraries and the network\<close>

text \<open>
  Everything the client calls outside this file is a field of \<open>env\<close>: the constant
  \<^verbatim>\<open>clientNameImdb\<close> and the helper \<^verbatim>\<open>scrapeSelectionAttribute\<close> of the same package,
  the network behind \<^verbatim>\<open>http.Client.Do\<close>, and the library functions
  \<^verbatim>\<open>url.Parse\<close>, \<^verbatim>\<open>cookiejar.New\<close>, \<^verbatim>\<open>http.NewRequest\<close>, \<^verbatim>\<open>csv.Reader.ReadAll\<close> (with
  lazy quotes and any number of fields per record), \<^verbatim>\<open>mime.ParseMediaType\<close> (the
  parameters as the entries of the map it returns), \<^verbatim>\<open>strconv.Atoi\<close>, \<^verbatim>\<open>time.Parse\<close>,
  the case tables of \<^verbatim>\<open>unicode.ToLower\<close> above ASCII, and goquery:
  \<open>goquery_user_list\<close> parses a body and gives, for each element of class
  \<^verbatim>\<open>user-list\<close> in document order, its \<^verbatim>\<open>id\<close> attribute if it has one.
\<close>

record env =
  clientNameImdb :: gostring
  url_Parse :: "gostring \<Rightarrow> err option"
  cookiejar_New :: "err option"
  http_NewRequest :: "gostring \<Rightarrow> gostring \<Rightarrow> err + request"
  client_Do :: "request \<Rightarrow> err + response"
  csv_ReadAll :: "gostring \<Rightarrow> err + gostring list list"
  mime_ParseMediaType :: "gostring \<Rightarrow> err + gostring \<times> (gostring \<times> gostring) list"
  strconv_Atoi :: "gostring \<Rightarrow> err + int"
  time_Parse :: "gostring \<Rightarrow> gostring \<Rightarrow> err + time"
  goquery_user_list :: "gostring \<Rightarrow> err + gostring option list"
  scrapeSelectionAttribute :: "gostring \<Rightarrow> gostring \<Rightarrow> gostring \<Rightarrow> gostring \<Rightarrow> err + gostring"
  unicode_ToLower :: "rune \<Rightarrow> rune"

section \<open>The client\<close>

definition imdbHeaderKeyContentDisposition :: gostring where
  "imdbHeaderKeyContentDisposition = str ''Content-Disposition''"

definition imdbPathBase :: gostring where
  "imdbPathBase = str ''https://www.imdb.com''"

definition imdbPathListExport :: "gostring \<Rightarrow> gostring" where
  "imdbPathListExport listId = str ''/list/'' @ listId @ str ''/export''"

definition imdbPathLists :: "gostring \<Rightarrow> gostring" where
  "imdbPathLists userId = str ''/user/'' @ userId @ str ''/lists''"

definition imdbPathProfile :: gostring where
  "imdbPathProfile = str ''/profile''"

definition imdbPathRatingsExport :: "gostring \<Rightarrow> gostring" where
  "imdbPathRatingsExport userId = str ''/user/'' @ userId @ str ''/ratings/export''"

definition imdbPathWatchlist :: gostring where
  "imdbPathWatchlist = str ''/watchlist''"

definition MethodGet :: gostring where
  "MethodGet = str ''GET''"

definition setupCookieJar :: "env \<Rightarrow> ImdbConfig \<Rightarrow> unit result" where
  "setupCookieJar e config =
     (case url_Parse e imdbPathBase of
        Some er \<Rightarrow> Err (Errorf (str ''failure parsing '' @ imdbPathBase @ str '' as url'') (Some er))
      | None \<Rightarrow>
          (case cookiejar_New e of
             Some er \<Rightarrow> Err (Errorf (str ''failure creating cookie jar'') (Some er))
           | None \<Rightarrow> Ok ()))"

definition doRequest :: "env \<Rightarrow> RequestFields \<Rightarrow> response result" where
  "doRequest e reqFields =
     (case http_NewRequest e (Method reqFields) (Url reqFields) of
        Inl er \<Rightarrow>
          Err (Errorf (str ''failure creating http request '' @ Method reqFields @ str '' ''
                 @ Url reqFields) (Some er))
      | Inr request \<Rightarrow>
          (case client_Do e request of
             Inl er \<Rightarrow>
               Err (Errorf (str ''failure sending http request '' @ Method reqFields @ str '' ''
                      @ Url reqFields) (Some er))
           | Inr response \<Rightarrow>
               if StatusCode response = 200 then Ok response
               else if StatusCode response = 403 then
                 Err (ApiError (clientNameImdb e) (req_Method request) (req_URL request)
                        (StatusCode response)
                        (str ''imdb authorization failure - update the imdb cookie values''))
               else if StatusCode response = 404 then Ok response
               else
                 Err (ApiError (clientNameImdb e) (req_Method request) (req_URL request)
                        (StatusCode response)
                        (str ''unexpected status code '' @ decimal (StatusCode response)))))"

text \<open>
  The loop of \<^verbatim>\<open>readImdbListResponse\<close> over the records from index \<open>i\<close> on;
  \<open>None\<close> is the panic of \<^verbatim>\<open>record[1]\<close> or \<^verbatim>\<open>record[7]\<close>.
\<close>

fun listItems_loop :: "nat \<Rightarrow> gostring list list \<Rightarrow> ImdbItem list \<Rightarrow> ImdbItem list option" where
  "listItems_loop i [] listItems = Some listItems"
| "listItems_loop i (record # csvData) listItems =
     (if i > 0 then
        (case at record 1 of
           None \<Rightarrow> None
         | Some r1 \<Rightarrow>
             (case at record 7 of
                None \<Rightarrow> None
              | Some r7 \<Rightarrow>
                  listItems_loop (i + 1) csvData
                    (listItems @ [\<lparr>Id = r1, TitleType = r7, Rating = None, RatingDate = None\<rparr>])))
      else listItems_loop (i + 1) csvData listItems)"

text \<open>\<^verbatim>\<open>params["filename"]\<close>: a missing key reads as the empty string.\<close>

definition param :: "(gostring \<times> gostring) list \<Rightarrow> gostring \<Rightarrow> gostring" where
  "param params k = (case map_of params k of None \<Rightarrow> [] | Some v \<Rightarrow> v)"

definition readImdbListResponse :: "env \<Rightarrow> response \<Rightarrow> gostring \<Rightarrow> ImdbList result" where
  "readImdbListResponse e res listId =
     (case csv_ReadAll e (Body res) of
        Inl er \<Rightarrow> Err (Errorf (str ''failure reading from imdb response'') (Some er))
      | Inr csvData \<Rightarrow>
          (case listItems_loop 0 csvData [] of
             None \<Rightarrow> Panic
           | Some listItems \<Rightarrow>
               let contentDispositionHeader = Header_ContentDisposition res in
               if contentDispositionHeader = [] then
                 Err (Errorf (str ''failure reading header '' @ imdbHeaderKeyContentDisposition
                        @ str '' from imdb response'') None)
               else
                 (case mime_ParseMediaType e contentDispositionHeader of
                    Inl er \<Rightarrow>
                      Err (Errorf (str ''failure parsing media type from imdb header ''
                             @ imdbHeaderKeyContentDisposition) (Some er))
                  | Inr (mediatype, params) \<Rightarrow>
                      if params = [] then
                        Err (Errorf (str ''failure parsing media type from imdb header ''
                               @ imdbHeaderKeyContentDisposition) None)
                      else
                        (case at (Split (param params (str ''filename'')) 46) 0 of
                           None \<Rightarrow> Panic
                         | Some listName \<Rightarrow>
                             Ok \<lparr>ListName = listName, ListId = listId, ListItems = listItems,
                                 IsWatchlist = False,
                                 TraktListSlug =
                                   buildTraktListName (unicode_ToLower e) listName\<rparr>))))"

definition ListGet :: "env \<Rightarrow> gostring \<Rightarrow> ImdbList result" where
  "ListGet e listId =
     (let path = imdbPathListExport listId;
          requestFields = \<lparr>Method = MethodGet, Endpoint = imdbPathBase, Path = path,
                            Url = imdbPathBase @ path\<rparr>
      in case doRequest e requestFields of
           Panic \<Rightarrow> Panic
         | Err er \<Rightarrow> Err er
         | Ok response \<Rightarrow>
             if StatusCode response = 404 then
               Err (ApiError (clientNameImdb e) (req_Method (Request response))
                      (req_URL (Request response)) (StatusCode response)
                      (str ''list with id '' @ listId @ str '' could not be found''))
             else readImdbListResponse e response listId)"

definition WatchlistGet :: "env \<Rightarrow> ImdbConfig \<Rightarrow> ImdbList result" where
  "WatchlistGet e config =
     (case ListGet e (WatchlistId config) of
        Panic \<Rightarrow> Panic
      | Err er \<Rightarrow> Err er
      | Ok list \<Rightarrow> Ok (list\<lparr>IsWatchlist := True\<rparr>))"

text \<open>
  The callback of \<^verbatim>\<open>Each\<close> in \<^verbatim>\<open>ListsGetAll\<close>, run on the selections in document
  order; it appends to the slice \<open>lsts\<close> (\<^verbatim>\<open>lists\<close> in the source) and writes to the log.
\<close>

fun ListsGetAll_each ::
  "env \<Rightarrow> gostring option list \<Rightarrow> ImdbList list \<Rightarrow> log_entry list
     \<Rightarrow> ImdbList list result \<times> log_entry list" where
  "ListsGetAll_each e [] lsts lg = (Ok lsts, lg)"
| "ListsGetAll_each e (selection # selections) lsts lg =
     (case selection of
        None \<Rightarrow> ListsGetAll_each e selections lsts (lg @ [Info (str ''found no imdb lists'')])
      | Some listId \<Rightarrow>
          (case ListGet e listId of
             Panic \<Rightarrow> (Panic, lg)
           | Err er \<Rightarrow>
               ListsGetAll_each e selections lsts
                 (lg @ [Error (str ''unexpected error while scraping imdb lists'') er])
           | Ok list \<Rightarrow>
               ListsGetAll_each e selections
                 (lsts @ [list\<lparr>TraktListSlug :=
                                  buildTraktListName (unicode_ToLower e) (ListName list)\<rparr>])
                 lg))"

definition ListsGetAll :: "env \<Rightarrow> ImdbConfig \<Rightarrow> ImdbList list result \<times> log_entry list" where
  "ListsGetAll e config =
     (let path = imdbPathLists (UserId config);
          requestFields = \<lparr>Method = MethodGet, Endpoint = imdbPathBase, Path = path,
                            Url = imdbPathBase @ path\<rparr>
      in case doRequest e requestFields of
           Panic \<Rightarrow> (Panic, [])
         | Err er \<Rightarrow> (Err er, [])
         | Ok response \<Rightarrow>
             (case goquery_user_list e (Body response) of
                Inl er \<Rightarrow>
                  (Err (Errorf (str ''failure creating goquery document from imdb response'')
                          (Some er)), [])
              | Inr selections \<Rightarrow> ListsGetAll_each e selections [] []))"

definition UserIdScrape :: "env \<Rightarrow> ImdbConfig \<Rightarrow> ImdbConfig result" where
  "UserIdScrape e config =
     (let requestFields = \<lparr>Method = MethodGet, Endpoint = imdbPathBase, Path = imdbPathProfile,
                            Url = imdbPathBase @ imdbPathProfile\<rparr>
      in case doRequest e requestFields of
           Panic \<Rightarrow> Panic
         | Err er \<Rightarrow> Err er
         | Ok response \<Rightarrow>
             (case scrapeSelectionAttribute e (Body response) (clientNameImdb e)
                     (str ''.user-profile.userId'') (str ''data-userid'') of
                Inl er \<Rightarrow> Err (Errorf (str ''imdb user id not found'') (Some er))
              | Inr userId \<Rightarrow> Ok (config\<lparr>UserId := userId\<rparr>)))"

definition WatchlistIdScrape :: "env \<Rightarrow> ImdbConfig \<Rightarrow> ImdbConfig result" where
  "WatchlistIdScrape e config =
     (let requestFields = \<lparr>Method = MethodGet, Endpoint = imdbPathBase, Path = imdbPathWatchlist,
                            Url = imdbPathBase @ imdbPathWatchlist\<rparr>
      in case doRequest e requestFields of
           Panic \<Rightarrow> Panic
         | Err er \<Rightarrow> Err er
         | Ok response \<Rightarrow>
             (case scrapeSelectionAttribute e (Body response) (clientNameImdb e)
                     (str ''meta[property='' @ [39] @ str ''pageId'' @ [39] @ str '']'') (str ''content'') of
                Inl er \<Rightarrow> Err (Errorf (str ''imdb watchlist id not found'') (Some er))
              | Inr watchlistId \<Rightarrow> Ok (config\<lparr>WatchlistId := watchlistId\<rparr>)))"

definition hydrate :: "env \<Rightarrow> ImdbConfig \<Rightarrow> ImdbConfig result" where
  "hydrate e config =
     (let scraped =
            (if UserId config = [] \<or> UserId config = str ''scrape'' then
               (case UserIdScrape e config of
                  Panic \<Rightarrow> Panic
                | Err er \<Rightarrow> Err (Errorf (str ''failure scraping imdb user id'') (Some er))
                | Ok config' \<Rightarrow> Ok config')
             else Ok config)
      in case scraped of
           Panic \<Rightarrow> Panic
         | Err er \<Rightarrow> Err er
         | Ok config' \<Rightarrow>
             (case WatchlistIdScrape e config' of
                Panic \<Rightarrow> Panic
              | Err er \<Rightarrow> Err (Errorf (str ''failure scraping imdb watchlist id'') (Some er))
              | Ok config'' \<Rightarrow> Ok config''))"

text \<open>The client that \<^verbatim>\<open>NewImdbClient\<close> returns is given by its configuration.\<close>

definition NewImdbClient :: "env \<Rightarrow> ImdbConfig \<Rightarrow> ImdbConfig result" where
  "NewImdbClient e config =
     (case setupCookieJar e config of
        Panic \<Rightarrow> Panic
      | Err er \<Rightarrow> Err er
      | Ok jar \<Rightarrow>
          (case hydrate e config of
             Panic \<Rightarrow> Panic
           | Err er \<Rightarrow> Err (Errorf (str ''failure hydrating imdb client'') (Some er))
           | Ok client \<Rightarrow> Ok client))"

text \<open>
  The loop of \<^verbatim>\<open>readImdbRatingsResponse\<close> over the records from index \<open>i\<close> on. The
  indices are read in the order of the source: 1, 2, then 0 and 5.
\<close>

fun ratings_loop ::
  "env \<Rightarrow> nat \<Rightarrow> gostring list list \<Rightarrow> ImdbItem list \<Rightarrow> ImdbItem list result" where
  "ratings_loop e i [] ratings = Ok ratings"
| "ratings_loop e i (record # csvData) ratings =
     (if i > 0 then
        (case at record 1 of
           None \<Rightarrow> Panic
         | Some r1 \<Rightarrow>
             (case strconv_Atoi e r1 of
                Inl er \<Rightarrow>
                  Err (Errorf (str ''failure parsing imdb rating value to integer'') (Some er))
              | Inr rating \<Rightarrow>
                  (case at record 2 of
                     None \<Rightarrow> Panic
                   | Some r2 \<Rightarrow>
                       (case time_Parse e (str ''2006-01-02'') r2 of
                          Inl er \<Rightarrow>
                            Err (Errorf (str ''failure parsing imdb rating date'') (Some er))
                        | Inr ratingDate \<Rightarrow>
                            (case at record 0 of
                               None \<Rightarrow> Panic
                             | Some r0 \<Rightarrow>
                                 (case at record 5 of
                                    None \<Rightarrow> Panic
                                  | Some r5 \<Rightarrow>
                                      ratings_loop e (i + 1) csvData
                                        (ratings @ [\<lparr>Id = r0, TitleType = r5,
                                                      Rating = Some rating,
                                                      RatingDate = Some ratingDate\<rparr>])))))))
      else ratings_loop e (i + 1) csvData ratings)"

definition readImdbRatingsResponse :: "env \<Rightarrow> response \<Rightarrow> ImdbItem list result" where
  "readImdbRatingsResponse e res =
     (case csv_ReadAll e (Body res) of
        Inl er \<Rightarrow> Err (Errorf (str ''failure reading from imdb response'') (Some er))
      | Inr csvData \<Rightarrow> ratings_loop e 0 csvData [])"

definition RatingsGet :: "env \<Rightarrow> ImdbConfig \<Rightarrow> ImdbItem list result" where
  "RatingsGet e config =
     (let path = imdbPathRatingsExport (UserId config);
          requestFields = \<lparr>Method = MethodGet, Endpoint = imdbPathBase, Path = path,
                            Url = imdbPathBase @ path\<rparr>
      in case doRequest e requestFields of
           Panic \<Rightarrow> Panic
         | Err er \<Rightarrow> Err er
         | Ok response \<Rightarrow> readImdbRatingsResponse e response)"

section \<open>The specification's slug\<close>

text \<open>
  \<open>spec_normalizeSlug\<close> follows the words of the specification: lowercase the input,
  collapse all whitespace runs into single hyphens, then strip every character outside
  \<^verbatim>\<open>[a-z0-9-]\<close>. \<open>inrun\<close> says that the rune before was whitespace.
\<close>

fun collapse_from :: "bool \<Rightarrow> gostring \<Rightarrow> gostring" where
  "collapse_from inrun [] = []"
| "collapse_from inrun (c # cs) =
     (if isSpace c then (if inrun then collapse_from True cs else 45 # collapse_from True cs)
      else c # collapse_from False cs)"

definition collapse_ws :: "gostring \<Rightarrow> gostring" where
  "collapse_ws s = collapse_from False s"

definition spec_normalizeSlug :: "(rune \<Rightarrow> rune) \<Rightarrow> gostring \<Rightarrow> gostring" where
  "spec_normalizeSlug tbl name = ReplaceAllString_nonslug (collapse_ws (ToLower tbl name))"

text \<open>A string without its trailing whitespace, and without leading and trailing whitespace.\<close>

definition rtrim :: "gostring \<Rightarrow> gostring" where
  "rtrim s = rev (dropWhile isSpace (rev s))"

definition trim :: "gostring \<Rightarrow> gostring" where
  "trim s = rtrim (dropWhile isSpace s)"

section \<open>Notions used to state the properties\<close>

text \<open>The response that the network gives to a GET of a URL, if the request gets one.\<close>

definition fetch :: "env \<Rightarrow> gostring \<Rightarrow> response option" where
  "fetch e u =
     (case http_NewRequest e MethodGet u of
        Inl er \<Rightarrow> None
      | Inr rq \<Rightarrow> (case client_Do e rq of Inl er \<Rightarrow> None | Inr r \<Rightarrow> Some r))"

definition status :: "env \<Rightarrow> gostring \<Rightarrow> nat option" where
  "status e u = map_option StatusCode (fetch e u)"

fun isOk :: "'a result \<Rightarrow> bool" where
  "isOk (Ok v) = True"
| "isOk r = False"

text \<open>The error classes of the specification, as the client builds them.\<close>

fun AuthorizationError :: "'a result \<Rightarrow> bool" where
  "AuthorizationError (Err (ApiError n m u code d)) = (code = 403)"
| "AuthorizationError r = False"


fun ratingsDecodeError :: "'a result \<Rightarrow> bool" where
  "ratingsDecodeError (Err (Errorf m (Some er))) =
     (m = str ''failure parsing imdb rating value to integer''
      \<or> m = str ''failure parsing imdb rating date'')"
| "ratingsDecodeError r = False"

fun headerDecodeError :: "'a result \<Rightarrow> bool" where
  "headerDecodeError (Err (Errorf m c)) =
     (m = str ''failure reading header Content-Disposition from imdb response''
      \<or> m = str ''failure parsing media type from imdb header Content-Disposition'')"
| "headerDecodeError r = False"

text \<open>The Items that the two feeds make of a record with enough fields.\<close>

definition listItem :: "gostring list \<Rightarrow> ImdbItem" where
  "listItem row = \<lparr>Id = row ! 1, TitleType = row ! 7, Rating = None, RatingDate = None\<rparr>"

definition parses :: "env \<Rightarrow> gostring list \<Rightarrow> bool" where
  "parses e row \<longleftrightarrow>
     \<not> isl (strconv_Atoi e (row ! 1)) \<and> \<not> isl (time_Parse e (str ''2006-01-02'') (row ! 2))"

definition ratingsItem :: "env \<Rightarrow> gostring list \<Rightarrow> ImdbItem" where
  "ratingsItem e row =
     \<lparr>Id = row ! 0, TitleType = row ! 5,
      Rating = Some (projr (strconv_Atoi e (row ! 1))),
      RatingDate = Some (projr (time_Parse e (str ''2006-01-02'') (row ! 2)))\<rparr>"

text \<open>The list ids among the selections, in document order.\<close>

fun listIds :: "gostring option list \<Rightarrow> gostring list" where
  "listIds [] = []"
| "listIds (None # sels) = listIds sels"
| "listIds (Some i # sels) = i # listIds sels"

section \<open>A concrete site\<close>

text \<open>
  A small site and simple stand-ins for the libraries, to run the client on. The CSV
  reader splits at line feeds and commas, which is what the library does on text
  without quotes and carriage returns; \<open>demo_Atoi\<close> reads unsigned decimal numbers and
  \<open>demo_time_Parse\<close> dates of the shape \<^verbatim>\<open>YYYY-MM-DD\<close> (it does not know the lengths
  of the months); the other stand-ins are tables of what the library returns on the
  texts of this site.
\<close>

definition digit :: "rune \<Rightarrow> bool" where
  "digit r \<longleftrightarrow> 48 \<le> r \<and> r \<le> 57"

definition number :: "gostring \<Rightarrow> nat" where
  "number s = foldl (\<lambda>n r. 10 * n + (r - 48)) 0 s"

definition demo_Atoi :: "gostring \<Rightarrow> err + int" where
  "demo_Atoi s =
     (if s \<noteq> [] \<and> list_all digit s then Inr (int (number s))
      else Inl (LibraryError (str ''strconv.Atoi: invalid syntax'')))"

definition demo_time_Parse :: "gostring \<Rightarrow> gostring \<Rightarrow> err + time" where
  "demo_time_Parse layout s =
     (let y = take 4 s; m = take 2 (drop 5 s); d = take 2 (drop 8 s)
      in if length s = 10 \<and> s ! 4 = 45 \<and> s ! 7 = 45 \<and> list_all digit (y @ m @ d)
            \<and> 1 \<le> number m \<and> number m \<le> 12 \<and> 1 \<le> number d \<and> number d \<le> 31
         then Inr (int (number y), number m, number d)
         else Inl (LibraryError (str ''parsing time: cannot parse'')))"

definition demo_csv_ReadAll :: "gostring \<Rightarrow> err + gostring list list" where
  "demo_csv_ReadAll body = Inr (map (\<lambda>l. Split l 44) (filter (\<lambda>l. l \<noteq> []) (Split body 10)))"

definition header_filename :: gostring where
  "header_filename = str ''attachment; filename='' @ [34] @ str ''My Watchlist.csv'' @ [34]"

definition header_size :: gostring where
  "header_size = str ''attachment; size=5''"

definition demo_ParseMediaType :: "gostring \<Rightarrow> err + gostring \<times> (gostring \<times> gostring) list" where
  "demo_ParseMediaType h =
     (if h = header_filename then
        Inr (str ''attachment'', [(str ''filename'', str ''My Watchlist.csv'')])
      else if h = header_size then Inr (str ''attachment'', [(str ''size'', str ''5'')])
      else if h = str ''attachment'' then Inr (str ''attachment'', [])
      else Inl (LibraryError (str ''mime: no media type'')))"

definition list_csv :: gostring where
  "list_csv = Join [str ''Position,Const,Created,Modified,Description,Title,URL,Title Type'',
                    str ''1,tt0111161,c,m,d,t,u,movie'',
                    str ''2,tt0944947,c,m,d,t,u,tvSeries''] [10]"

definition list_csv_short :: gostring where
  "list_csv_short = Join [str ''Position,Const,Created,Modified,Description,Title,URL,Title Type'',
                          str ''1,tt0111161''] [10]"

definition ratings_csv :: gostring where
  "ratings_csv = Join [str ''Const,Your Rating,Date Rated,Title,URL,Title Type'',
                       str ''tt0111161,9,2022-05-01,t,u,movie'',
                       str ''tt0944947,10,2021-12-24,t,u,tvSeries''] [10]"

definition ratings_csv_short_then_bad :: gostring where
  "ratings_csv_short_then_bad = Join [str ''Const,Your Rating,Date Rated,Title,URL,Title Type'',
                                      str ''tt0111161'',
                                      str ''tt0944947,x,2021-12-24,t,u,tvSeries''] [10]"

definition ratings_csv_short_bad :: gostring where
  "ratings_csv_short_bad = Join [str ''Const,Your Rating,Date Rated,Title,URL,Title Type'',
                                 str ''tt0111161,x''] [10]"

definition ratings_csv_bad_date :: gostring where
  "ratings_csv_bad_date = Join [str ''Const,Your Rating,Date Rated,Title,URL,Title Type'',
                                str ''tt0111161,9,yesterday,t,u,movie''] [10]"

definition lists_page :: gostring where
  "lists_page = str ''<li class=user-list id=ls1><li class=user-list id=ls404>''
     @ str ''<li class=user-list id=ls403><li class=user-list><li class=user-list id=ls2>''"

definition lists_page_403 :: gostring where
  "lists_page_403 = str ''<li class=user-list id=ls403>''"

definition lists_page_empty :: gostring where
  "lists_page_empty = str ''<html></html>''"

definition demo_user_list :: "gostring \<Rightarrow> err + gostring option list" where
  "demo_user_list body =
     (if body = lists_page then
        Inr [Some (str ''ls1''), Some (str ''ls404''), Some (str ''ls403''), None,
             Some (str ''ls2'')]
      else if body = lists_page_403 then Inr [Some (str ''ls403'')]
      else Inr [])"

definition profile_page :: gostring where
  "profile_page = str ''<div class='' @ [34] @ str ''user-profile userId'' @ [34]
     @ str '' data-userid=ur1>''"

definition watchlist_page :: gostring where
  "watchlist_page = str ''<meta property=pageId content=ls9>''"

definition demo_scrape :: "gostring \<Rightarrow> gostring \<Rightarrow> gostring \<Rightarrow> gostring \<Rightarrow> err + gostring" where
  "demo_scrape body client selector attr =
     (if body = profile_page \<and> selector = str ''.user-profile.userId''
         \<and> attr = str ''data-userid'' then Inr (str ''ur1'')
      else if body = watchlist_page
         \<and> selector = str ''meta[property='' @ [39] @ str ''pageId'' @ [39] @ str '']''
         \<and> attr = str ''content'' then Inr (str ''ls9'')
      else Inl (LibraryError (str ''selection not found'')))"

text \<open>The pages of the site: path, status code, Content-Disposition header and body.\<close>

definition demo_site :: "(gostring \<times> nat \<times> gostring \<times> gostring) list" where
  "demo_site =
     [(str ''/profile'', 200, [], profile_page),
      (str ''/watchlist'', 200, [], watchlist_page),
      (str ''/user/ur1/lists'', 200, [], lists_page),
      (str ''/user/ur2/lists'', 200, [], lists_page_403),
      (str ''/user/ur3/lists'', 200, [], lists_page_empty),
      (str ''/list/ls1/export'', 200, header_filename, list_csv),
      (str ''/list/ls2/export'', 200, header_filename, list_csv),
      (str ''/list/ls3/export'', 200, header_size, list_csv),
      (str ''/list/ls4/export'', 200, header_filename, list_csv_short),
      (str ''/list/ls5/export'', 200, [], list_csv),
      (str ''/list/ls9/export'', 200, header_filename, list_csv),
      (str ''/list/ls403/export'', 403, [], []),
      (str ''/list/ls404/export'', 404, [], []),
      (str ''/user/ur1/ratings/export'', 200, [], ratings_csv),
      (str ''/user/ur2/ratings/export'', 200, [], ratings_csv_short_then_bad),
      (str ''/user/ur3/ratings/export'', 200, [], ratings_csv_short_bad),
      (str ''/user/ur4/ratings/export'', 200, [], ratings_csv_bad_date)]"

definition demo_Do :: "request \<Rightarrow> err + response" where
  "demo_Do rq =
     (case map_of demo_site (drop (length imdbPathBase) (req_URL rq)) of
        None \<Rightarrow> Inl (LibraryError (str ''no such page''))
      | Some (code, header, body) \<Rightarrow>
          Inr \<lparr>StatusCode = code, Header_ContentDisposition = header, Body = body,
               Request = rq\<rparr>)"

definition demo_env :: env where
  "demo_env =
     \<lparr>clientNameImdb = str ''imdb'',
      url_Parse = (\<lambda>u. None),
      cookiejar_New = None,
      http_NewRequest = (\<lambda>m u. Inr \<lparr>req_Method = m, req_URL = u\<rparr>),
      client_Do = demo_Do,
      csv_ReadAll = demo_csv_ReadAll,
      mime_ParseMediaType = demo_ParseMediaType,
      strconv_Atoi = demo_Atoi,
      time_Parse = demo_time_Parse,
      goquery_user_list = demo_user_list,
      scrapeSelectionAttribute = demo_scrape,
      unicode_ToLower = id\<rparr>"

text \<open>The same site when it rejects the session cookies: every request is answered 403.\<close>

definition forbidden_env :: env where
  "forbidden_env =
     demo_env\<lparr>client_Do := (\<lambda>rq. Inr \<lparr>StatusCode = 403, Header_ContentDisposition = [],
                                        Body = [], Request = rq\<rparr>)\<rparr>"

definition demo_config :: "gostring \<Rightarrow> gostring \<Rightarrow> ImdbConfig" where
  "demo_config userId watchlistId =
     \<lparr>CookieAtMain = str ''at'', CookieUbidMain = str ''ubid'', UserId = userId,
      WatchlistId = watchlistId\<rparr>"

text \<open>The records of \<open>list_csv\<close>.\<close>

definition list_rows :: "gostring list list" where
  "list_rows =
     [map str [''Position'', ''Const'', ''Created'', ''Modified'', ''Description'',
               ''Title'', ''URL'', ''Title Type''],
      map str [''1'', ''tt0111161'', ''c'', ''m'', ''d'', ''t'', ''u'', ''movie''],
      map str [''2'', ''tt0944947'', ''c'', ''m'', ''d'', ''t'', ''u'', ''tvSeries'']]"

text \<open>The records of \<open>ratings_csv\<close> and of \<open>ratings_csv_bad_date\<close>.\<close>

definition ratings_rows :: "gostring list list" where
  "ratings_rows =
     [map str [''Const'', ''Your Rating'', ''Date Rated'', ''Title'', ''URL'', ''Title Type''],
      map str [''tt0111161'', ''9'', ''2022-05-01'', ''t'', ''u'', ''movie''],
      map str [''tt0944947'', ''10'', ''2021-12-24'', ''t'', ''u'', ''tvSeries'']]"

definition ratings_rows_bad_date :: "gostring list list" where
  "ratings_rows_bad_date =
     [map str [''Const'', ''Your Rating'', ''Date Rated'', ''Title'', ''URL'', ''Title Type''],
      map str [''tt0111161'', ''9'', ''yesterday'', ''t'', ''u'', ''movie'']]"

text \<open>The response of the site to a GET of a path.\<close>

definition demo_response :: "gostring \<Rightarrow> nat \<Rightarrow> gostring \<Rightarrow> gostring \<Rightarrow> response" where
  "demo_response p code header body =
     \<lparr>StatusCode = code, Header_ContentDisposition = header, Body = body,
      Request = \<lparr>req_Method = MethodGet, req_URL = imdbPathBase @ p\<rparr>\<rparr>"

text \<open>The records of \<open>list_csv_short\<close> and of \<open>ratings_csv_short_then_bad\<close>.\<close>

definition list_rows_short :: "gostring list list" where
  "list_rows_short =
     [map str [''Position'', ''Const'', ''Created'', ''Modified'', ''Description'',
               ''Title'', ''URL'', ''Title Type''],
      map str [''1'', ''tt0111161'']]"

definition ratings_rows_short :: "gostring list list" where
  "ratings_rows_short =
     [map str [''Const'', ''Your Rating'', ''Date Rated'', ''Title'', ''URL'', ''Title Type''],
      [str ''tt0111161''],
      map str [''tt0944947'', ''x'', ''2021-12-24'', ''t'', ''u'', ''tvSeries'']]"

section \<open>Slug normalization\<close>

lemmas slug_defs =
  buildTraktListName_def spec_normalizeSlug_def collapse_ws_def trim_def rtrim_def Fields_def
  isSpace_def
  ToLower_def toLowerRune_def ReplaceAllString_nonslug_def slugRune_def str_def

lemma slugRune_not_space: "slugRune r \<Longrightarrow> \<not> isSpace r"
  by (auto simp: slugRune_def isSpace_def)

lemma slugRune_lower: "slugRune r \<Longrightarrow> toLowerRune tbl r = r"
  by (auto simp: slugRune_def toLowerRune_def)

lemma fields_from_nospace:
  "\<forall>c \<in> set s. \<not> isSpace c \<Longrightarrow> fields_from cur s = (if cur @ s = [] then [] else [cur @ s])"
  by (induction s arbitrary: cur) auto

lemma buildTraktListName_slug: "list_all slugRune (buildTraktListName tbl s)"
  by (simp add: buildTraktListName_def ReplaceAllString_nonslug_def list_all_iff)

lemma buildTraktListName_fixed:
  assumes "list_all slugRune s"
  shows "buildTraktListName tbl s = s"
proof -
  from assms have ns: "\<forall>c \<in> set s. \<not> isSpace c"
    by (auto simp: list_all_iff slugRune_not_space)
  have j: "Join (Fields s) (str ''-'') = s"
    using fields_from_nospace [OF ns, of "[]"] by (simp add: Fields_def)
  have l: "ToLower tbl s = s"
    using assms by (simp add: ToLower_def list_all_iff slugRune_lower map_idI)
  have f: "filter slugRune s = s"
    using assms by (simp add: list_all_iff)
  show ?thesis
    by (simp add: buildTraktListName_def j l ReplaceAllString_nonslug_def f)
qed

lemma rtrim_empty_iff: "rtrim s = [] \<longleftrightarrow> (\<forall>c \<in> set s. isSpace c)"
  by (simp add: rtrim_def dropWhile_eq_Nil_conv)

lemma rtrim_Nil: "rtrim [] = []"
  by (simp add: rtrim_def)

lemma rtrim_Cons: "rtrim (c # cs) = (if isSpace c \<and> rtrim cs = [] then [] else c # rtrim cs)"
  by (auto simp: rtrim_def dropWhile_append dropWhile_eq_Nil_conv)

lemma fields_from_nonempty: "cur \<noteq> [] \<Longrightarrow> fields_from cur s \<noteq> []"
  by (induction s arbitrary: cur) auto

lemma fields_from_empty_iff: "fields_from [] s = [] \<longleftrightarrow> (\<forall>c \<in> set s. isSpace c)"
  by (induction s) (auto simp: fields_from_nonempty)

lemma Join_Cons: "es \<noteq> [] \<Longrightarrow> Join (e # es) sep = e @ sep @ Join es sep"
  by (cases es) auto

lemma Join_fields_from:
  "Join (fields_from cur s) [45] =
     (if cur = [] then collapse_from True (rtrim s) else cur @ collapse_from False (rtrim s))"
proof (induction s arbitrary: cur)
  case Nil
  show ?case by (simp add: rtrim_Nil)
next
  case (Cons c cs)
  show ?case
  proof (cases "isSpace c")
    case True
    show ?thesis
    proof (cases "\<forall>x \<in> set cs. isSpace x")
      case allsp: True
      then have "fields_from [] cs = []" "rtrim cs = []"
        by (simp_all add: fields_from_empty_iff rtrim_empty_iff)
      then show ?thesis
        using True by (simp add: rtrim_Cons)
    next
      case False
      then have "fields_from [] cs \<noteq> []" "rtrim cs \<noteq> []"
        by (simp_all add: fields_from_empty_iff rtrim_empty_iff)
      then show ?thesis
        using True Cons [of "[]"] by (simp add: Join_Cons rtrim_Cons)
    qed
  next
    case False
    then show ?thesis
      using Cons [of "cur @ [c]"] by (simp add: rtrim_Cons)
  qed
qed

lemma collapse_True_rtrim:
  "collapse_from True (rtrim s) = collapse_from False (rtrim (dropWhile isSpace s))"
proof (induction s)
  case Nil
  show ?case by (simp add: rtrim_Nil)
next
  case (Cons c cs)
  show ?case
  proof (cases "isSpace c")
    case True
    have "collapse_from True (rtrim (c # cs)) = collapse_from True (rtrim cs)"
      using True by (simp add: rtrim_Cons)
    then show ?thesis
      using True Cons by simp
  next
    case False
    then show ?thesis by (simp add: rtrim_Cons)
  qed
qed

lemma Join_Fields_collapse: "Join (Fields s) (str ''-'') = collapse_ws (trim s)"
  using Join_fields_from [of "[]" s]
  by (simp add: Fields_def str_def collapse_ws_def trim_def collapse_True_rtrim)

lemma collapse_from_map:
  assumes "\<forall>c \<in> set s. isSpace (f c) = isSpace c" and "f 45 = 45"
  shows "collapse_from b (map f s) = map f (collapse_from b s)"
  using assms by (induction s arbitrary: b) auto

lemma toLowerRune_space:
  assumes "\<forall>r. 127 < r \<longrightarrow> isSpace (tbl r) = isSpace r"
  shows "isSpace (toLowerRune tbl r) = isSpace r"
  using assms by (auto simp: toLowerRune_def isSpace_def)

lemma buildTraktListName_example:
  "buildTraktListName tbl (str ''Sci-Fi Favorites 2024'') = str ''sci-fi-favorites-2024''"
  by (simp add: slug_defs)

text \<open>
  C5, as written: \<^verbatim>\<open>buildTraktListName\<close> is the specification's \<open>normalizeSlug\<close> on every
  input. It is not: on the name " a" the specification's words turn the leading
  whitespace run into a hyphen and give "-a", while \<^verbatim>\<open>strings.Fields\<close> drops leading
  and trailing whitespace and the code gives "a".
\<close>

theorem buildTraktListName_leading_space:
  "buildTraktListName id (str '' a'') = str ''a'' \<and> spec_normalizeSlug id (str '' a'') = str ''-a''"
  by (simp add: slug_defs)

text \<open>
  C5, amended: \<^verbatim>\<open>buildTraktListName\<close> computes its result by dropping leading and trailing
  whitespace, lowercasing, collapsing every remaining whitespace run into a single
  hyphen, then stripping every character outside \<^verbatim>\<open>[a-z0-9-]\<close>, that is, it is the
  specification's \<open>normalizeSlug\<close> on the trimmed input; and the name
  "Sci-Fi Favorites 2024" gives "sci-fi-favorites-2024". The hypothesis is a fact of
  the Unicode case tables: lowering a rune keeps whitespace whitespace and everything
  else not whitespace.
\<close>

theorem buildTraktListName_spec_trim:
  assumes "\<forall>r. 127 < r \<longrightarrow> isSpace (tbl r) = isSpace r"
  shows "buildTraktListName tbl s = spec_normalizeSlug tbl (trim s)
         \<and> buildTraktListName tbl (str ''Sci-Fi Favorites 2024'') = str ''sci-fi-favorites-2024''"
proof -
  have "collapse_ws (ToLower tbl (trim s)) = ToLower tbl (collapse_ws (trim s))"
    unfolding collapse_ws_def ToLower_def
  proof (rule collapse_from_map)
    show "\<forall>c\<in>set (trim s). isSpace (toLowerRune tbl c) = isSpace c"
      by (simp add: toLowerRune_space [OF assms])
    show "toLowerRune tbl 45 = 45"
      by (simp add: toLowerRune_def)
  qed
  then have "buildTraktListName tbl s = spec_normalizeSlug tbl (trim s)"
    by (simp add: buildTraktListName_def spec_normalizeSlug_def Join_Fields_collapse)
  then show ?thesis
    by (simp add: buildTraktListName_example)
qed

theorem buildTraktListName_spec_trim_witness:
  "buildTraktListName id (str ''  My  Sci-Fi list '')
     = spec_normalizeSlug id (trim (str ''  My  Sci-Fi list ''))
   \<and> spec_normalizeSlug id (trim (str ''  My  Sci-Fi list '')) = str ''my-sci-fi-list''"
proof -
  have "spec_normalizeSlug id (trim (str ''  My  Sci-Fi list '')) = str ''my-sci-fi-list''"
    by (simp add: slug_defs)
  then show ?thesis
    using buildTraktListName_spec_trim [of id "str ''  My  Sci-Fi list ''"] by simp
qed

text \<open>
  C6: \<^verbatim>\<open>buildTraktListName\<close> is a function of its argument that has a result on every
  string (the pattern it compiles is a constant); the result holds only lowercase
  letters, digits and hyphens; and applying it to its own result changes nothing.
\<close>

theorem buildTraktListName_idempotent:
  "list_all slugRune (buildTraktListName tbl s)
   \<and> buildTraktListName tbl (buildTraktListName tbl s) = buildTraktListName tbl s"
  by (simp add: buildTraktListName_slug buildTraktListName_fixed)

theorem buildTraktListName_idempotent_witness:
  "list_all slugRune (buildTraktListName id (str '' A b_C  9 ''))
   \<and> buildTraktListName id (buildTraktListName id (str '' A b_C  9 ''))
       = buildTraktListName id (str '' A b_C  9 '')"
  using buildTraktListName_idempotent [of id "str '' A b_C  9 ''"] by simp

section \<open>Requests and the 403 response\<close>

lemmas demo_defs =
  demo_env_def forbidden_env_def demo_Do_def demo_site_def demo_csv_ReadAll_def
  demo_ParseMediaType_def demo_Atoi_def demo_time_Parse_def demo_user_list_def demo_scrape_def
  demo_config_def header_filename_def header_size_def list_csv_def list_csv_short_def
  ratings_csv_def ratings_csv_short_then_bad_def ratings_csv_short_bad_def
  ratings_csv_bad_date_def lists_page_def lists_page_403_def lists_page_empty_def
  profile_page_def watchlist_page_def digit_def number_def

lemmas path_defs =
  imdbPathBase_def imdbPathListExport_def imdbPathLists_def imdbPathProfile_def
  imdbPathRatingsExport_def imdbPathWatchlist_def MethodGet_def str_def

lemmas client_defs =
  ListGet_def WatchlistGet_def ListsGetAll_def RatingsGet_def UserIdScrape_def
  WatchlistIdScrape_def hydrate_def NewImdbClient_def setupCookieJar_def doRequest_def
  readImdbListResponse_def readImdbRatingsResponse_def imdbHeaderKeyContentDisposition_def
  Split_def at_def param_def fetch_def status_def


lemma doRequest_pass:
  assumes "Method rf = MethodGet" and "fetch e (Url rf) = Some r"
    and "StatusCode r = 200 \<or> StatusCode r = 404"
  shows "doRequest e rf = Ok r"
  using assms by (auto simp: fetch_def doRequest_def split: sum.splits)

lemma doRequest_403:
  assumes "Method rf = MethodGet" and "status e (Url rf) = Some 403"
  shows "\<exists>m v d. doRequest e rf = Err (ApiError (clientNameImdb e) m v 403 d)"
  using assms by (auto simp: status_def fetch_def doRequest_def split: sum.splits)


lemma ListGet_pass:
  assumes "fetch e (imdbPathBase @ imdbPathListExport listId) = Some r"
    and "StatusCode r = 200 \<or> StatusCode r = 404"
  shows "ListGet e listId =
     (if StatusCode r = 404 then
        Err (ApiError (clientNameImdb e) (req_Method (Request r)) (req_URL (Request r)) 404
               (str ''list with id '' @ listId @ str '' could not be found''))
      else readImdbListResponse e r listId)"
proof -
  define rf where "rf = \<lparr>Method = MethodGet, Endpoint = imdbPathBase,
    Path = imdbPathListExport listId, Url = imdbPathBase @ imdbPathListExport listId\<rparr>"
  have "doRequest e rf = Ok r"
    by (rule doRequest_pass) (simp_all add: rf_def assms)
  then show ?thesis
    by (simp add: ListGet_def Let_def rf_def)
qed


lemma ListGet_200:
  assumes "fetch e (imdbPathBase @ imdbPathListExport listId) = Some r" and "StatusCode r = 200"
  shows "ListGet e listId = readImdbListResponse e r listId"
  using ListGet_pass [OF assms(1)] assms(2) by simp


lemma RatingsGet_pass:
  assumes "fetch e (imdbPathBase @ imdbPathRatingsExport (UserId c)) = Some r"
    and "StatusCode r = 200 \<or> StatusCode r = 404"
  shows "RatingsGet e c = readImdbRatingsResponse e r"
proof -
  define rf where "rf = \<lparr>Method = MethodGet, Endpoint = imdbPathBase,
    Path = imdbPathRatingsExport (UserId c),
    Url = imdbPathBase @ imdbPathRatingsExport (UserId c)\<rparr>"
  have "doRequest e rf = Ok r"
    by (rule doRequest_pass) (simp_all add: rf_def assms)
  then show ?thesis
    by (simp add: RatingsGet_def Let_def rf_def)
qed

lemma UserIdScrape_403:
  assumes "status e (imdbPathBase @ imdbPathProfile) = Some 403"
  shows "AuthorizationError (UserIdScrape e c)"
proof -
  define rf where "rf = \<lparr>Method = MethodGet, Endpoint = imdbPathBase,
    Path = imdbPathProfile, Url = imdbPathBase @ imdbPathProfile\<rparr>"
  have "\<exists>m v d. doRequest e rf = Err (ApiError (clientNameImdb e) m v 403 d)"
    by (rule doRequest_403) (simp_all add: rf_def assms)
  then show ?thesis
    by (auto simp: UserIdScrape_def Let_def rf_def)
qed

lemma WatchlistIdScrape_403:
  assumes "status e (imdbPathBase @ imdbPathWatchlist) = Some 403"
  shows "AuthorizationError (WatchlistIdScrape e c)"
proof -
  define rf where "rf = \<lparr>Method = MethodGet, Endpoint = imdbPathBase,
    Path = imdbPathWatchlist, Url = imdbPathBase @ imdbPathWatchlist\<rparr>"
  have "\<exists>m v d. doRequest e rf = Err (ApiError (clientNameImdb e) m v 403 d)"
    by (rule doRequest_403) (simp_all add: rf_def assms)
  then show ?thesis
    by (auto simp: WatchlistIdScrape_def Let_def rf_def)
qed


lemma ListsGetAll_pass:
  assumes "fetch e (imdbPathBase @ imdbPathLists (UserId c)) = Some r"
    and "StatusCode r = 200 \<or> StatusCode r = 404"
    and "goquery_user_list e (Body r) = Inr sels"
  shows "ListsGetAll e c = ListsGetAll_each e sels [] []"
proof -
  define rf where "rf = \<lparr>Method = MethodGet, Endpoint = imdbPathBase,
    Path = imdbPathLists (UserId c), Url = imdbPathBase @ imdbPathLists (UserId c)\<rparr>"
  have "doRequest e rf = Ok r"
    by (rule doRequest_pass) (simp_all add: rf_def assms)
  then show ?thesis
    by (simp add: ListsGetAll_def Let_def rf_def assms(3))
qed

lemma forbidden_status: "status forbidden_env u = Some 403"
  by (simp add: status_def fetch_def forbidden_env_def demo_env_def)

section \<open>The catalog scan\<close>

lemma ListGet_ListId: "ListGet e i = Ok l \<Longrightarrow> ListId l = i"
  by (auto simp: ListGet_def readImdbListResponse_def Let_def
      split: result.splits sum.splits option.splits if_splits prod.splits)

lemma each_fst_log: 
  "fst (ListsGetAll_each e sels lsts lg) = fst (ListsGetAll_each e sels lsts lg')"
proof (induction sels arbitrary: lsts lg lg')
  case Nil
  show ?case by simp
next
  case (Cons sel sels)
  show ?case
  proof (cases sel)
    case None
    then show ?thesis using Cons by simp
  next
    case (Some i)
    then show ?thesis using Cons by (cases "ListGet e i") simp_all
  qed
qed

lemma each_Ok_ids:
  "fst (ListsGetAll_each e sels lsts lg) = Ok ls \<Longrightarrow>
   map ListId ls = map ListId lsts @ filter (\<lambda>i. isOk (ListGet e i)) (listIds sels)"
proof (induction sels arbitrary: lsts lg)
  case Nil
  then show ?case by simp
next
  case (Cons sel sels)
  show ?case
  proof (cases sel)
    case None
    then show ?thesis using Cons by simp
  next
    case (Some i)
    show ?thesis
    proof (cases "ListGet e i")
      case Panic
      then show ?thesis using Cons.prems Some by simp
    next
      case (Err er)
      then show ?thesis using Cons Some by simp
    next
      case (Ok l)
      then show ?thesis
        using Cons.IH [of "lsts @ [l\<lparr>TraktListSlug :=
                 buildTraktListName (unicode_ToLower e) (ListName l)\<rparr>]" lg] Cons.prems Some
          ListGet_ListId [OF Ok]
        by simp
    qed
  qed
qed

lemma each_no_panic:
  "\<forall>i \<in> set (listIds sels). ListGet e i \<noteq> Panic \<Longrightarrow> isOk (fst (ListsGetAll_each e sels lsts lg))"
proof (induction sels arbitrary: lsts lg)
  case Nil
  show ?case by simp
next
  case (Cons sel sels)
  show ?case
  proof (cases sel)
    case None
    then show ?thesis using Cons by simp
  next
    case (Some i)
    then show ?thesis using Cons by (cases "ListGet e i") simp_all
  qed
qed

text \<open>
  C8: when the request for the lists-overview page is answered 200 and the page has no
  element of class \<^verbatim>\<open>user-list\<close>, \<^verbatim>\<open>ListsGetAll\<close> returns the empty sequence and no
  error. When it has such elements, the lists returned are those of the ids whose
  \<^verbatim>\<open>ListGet\<close> succeeds, in the document order of the ids; and a sequence is returned
  whenever no \<^verbatim>\<open>ListGet\<close> panics.
\<close>

theorem ListsGetAll_empty_and_order:
  assumes "fetch e (imdbPathBase @ imdbPathLists (UserId c)) = Some r"
    and "StatusCode r = 200"
    and "goquery_user_list e (Body r) = Inr sels"
  shows "(sels = [] \<longrightarrow> ListsGetAll e c = (Ok [], []))
    \<and> (\<forall>ls. fst (ListsGetAll e c) = Ok ls
          \<longrightarrow> map ListId ls = filter (\<lambda>i. isOk (ListGet e i)) (listIds sels))
    \<and> ((\<forall>i \<in> set (listIds sels). ListGet e i \<noteq> Panic) \<longrightarrow> isOk (fst (ListsGetAll e c)))"
proof -
  have eq: "ListsGetAll e c = ListsGetAll_each e sels [] []"
    using assms by (simp add: ListsGetAll_pass)
  show ?thesis
    using each_Ok_ids [of e sels "[]" "[]"] each_no_panic [of sels e "[]" "[]"]
    by (simp add: eq)
qed

lemma demo_fetch:
  "map_of demo_site p = Some (code, h, b) \<Longrightarrow>
   fetch demo_env (imdbPathBase @ p)
     = Some \<lparr>StatusCode = code, Header_ContentDisposition = h, Body = b,
             Request = \<lparr>req_Method = MethodGet, req_URL = imdbPathBase @ p\<rparr>\<rparr>"
  by (simp add: fetch_def demo_env_def demo_Do_def)

lemma demo_page_ur3:
  "map_of demo_site (imdbPathLists (UserId (demo_config (str ''ur3'') [])))
     = Some (200, [], lists_page_empty)"
  by (simp add: demo_site_def demo_config_def path_defs)

lemma demo_page_ur1:
  "map_of demo_site (imdbPathLists (UserId (demo_config (str ''ur1'') [])))
     = Some (200, [], lists_page)"
  by (simp add: demo_site_def demo_config_def path_defs)

lemma demo_lists_empty: "goquery_user_list demo_env lists_page_empty = Inr []"
  by (simp add: demo_defs path_defs)

lemma demo_lists:
  "goquery_user_list demo_env lists_page
     = Inr [Some (str ''ls1''), Some (str ''ls404''), Some (str ''ls403''), None,
            Some (str ''ls2'')]"
  by (simp add: demo_defs path_defs)

lemma demo_ListGet_isOk:
  "isOk (ListGet demo_env (str ''ls1''))" "\<not> isOk (ListGet demo_env (str ''ls404''))"
  "\<not> isOk (ListGet demo_env (str ''ls403''))" "isOk (ListGet demo_env (str ''ls2''))"
  by (simp_all add: client_defs path_defs demo_defs)

lemma demo_ListGet_no_Panic:
  "ListGet demo_env (str ''ls404'') \<noteq> Panic" "ListGet demo_env (str ''ls403'') \<noteq> Panic"
  by (simp_all add: client_defs path_defs demo_defs)

theorem ListsGetAll_empty_and_order_witness:
  "ListsGetAll demo_env (demo_config (str ''ur3'') []) = (Ok [], [])
   \<and> (\<exists>ls. fst (ListsGetAll demo_env (demo_config (str ''ur1'') [])) = Ok ls
          \<and> map ListId ls = [str ''ls1'', str ''ls2''])"
proof -
  have a: "ListsGetAll demo_env (demo_config (str ''ur3'') []) = (Ok [], [])"
    using ListsGetAll_empty_and_order [where sels = "[]", OF demo_fetch [OF demo_page_ur3]]
    by (simp add: demo_lists_empty)
  have b: "\<exists>ls. fst (ListsGetAll demo_env (demo_config (str ''ur1'') [])) = Ok ls
          \<and> map ListId ls = [str ''ls1'', str ''ls2'']"
    using ListsGetAll_empty_and_order
      [where sels = "[Some (str ''ls1''), Some (str ''ls404''), Some (str ''ls403''), None,
                      Some (str ''ls2'')]",
       OF demo_fetch [OF demo_page_ur1]]
      demo_ListGet_isOk demo_ListGet_no_Panic
    by (cases "fst (ListsGetAll demo_env (demo_config (str ''ur1'') []))")
       (auto simp: demo_lists)
  show ?thesis using a b by simp
qed

section \<open>Decoding a list export\<close>

lemma listItems_loop_pos:
  "0 < i \<Longrightarrow> listItems_loop i rows acc
     = (if \<forall>row \<in> set rows. 8 \<le> length row then Some (acc @ map listItem rows) else None)"
proof (induction rows arbitrary: i acc)
  case Nil
  show ?case by simp
next
  case (Cons row rows)
  show ?case
  proof (cases "8 \<le> length row")
    case True
    then show ?thesis
      using Cons.prems Cons.IH [of "i + 1"] by (simp add: at_def listItem_def)
  next
    case False
    then show ?thesis
      using Cons.prems by (auto simp: at_def)
  qed
qed

lemma listItems_loop_0:
  "listItems_loop 0 csvData []
     = (if \<forall>row \<in> set (drop 1 csvData). 8 \<le> length row
        then Some (map listItem (drop 1 csvData)) else None)"
proof (cases csvData)
  case Nil
  then show ?thesis by simp
next
  case (Cons header rows)
  then show ?thesis
    using listItems_loop_pos [of 1 rows "[]"] by simp
qed

lemma split_from_hd:
  "split_from sep cur s \<noteq> [] \<and> hd (split_from sep cur s) = cur @ takeWhile (\<lambda>c. c \<noteq> sep) s"
  by (induction s arbitrary: cur) auto

lemma at_Split_0: "at (Split s sep) 0 = Some (takeWhile (\<lambda>c. c \<noteq> sep) s)"
  using split_from_hd [of sep "[]" s]
  by (cases "split_from sep [] s") (auto simp: at_def Split_def)

lemma readImdbListResponse_rows:
  assumes "csv_ReadAll e (Body r) = Inr csvData"
  shows "readImdbListResponse e r listId =
     (if \<exists>row \<in> set (drop 1 csvData). length row < 8 then Panic
      else if Header_ContentDisposition r = [] then
        Err (Errorf (str ''failure reading header Content-Disposition from imdb response'') None)
      else
        (case mime_ParseMediaType e (Header_ContentDisposition r) of
           Inl er \<Rightarrow>
             Err (Errorf (str ''failure parsing media type from imdb header Content-Disposition'')
                    (Some er))
         | Inr (mediatype, params) \<Rightarrow>
             if params = [] then
               Err (Errorf (str ''failure parsing media type from imdb header Content-Disposition'')
                      None)
             else
               Ok \<lparr>ListName = takeWhile (\<lambda>c. c \<noteq> 46) (param params (str ''filename'')),
                   ListId = listId, ListItems = map listItem (drop 1 csvData),
                   IsWatchlist = False,
                   TraktListSlug = buildTraktListName (unicode_ToLower e)
                     (takeWhile (\<lambda>c. c \<noteq> 46) (param params (str ''filename'')))\<rparr>))"
proof -
  have h: "str ''failure reading header '' @ imdbHeaderKeyContentDisposition
             @ str '' from imdb response''
           = str ''failure reading header Content-Disposition from imdb response''"
    "str ''failure parsing media type from imdb header '' @ imdbHeaderKeyContentDisposition
           = str ''failure parsing media type from imdb header Content-Disposition''"
    by (simp_all add: imdbHeaderKeyContentDisposition_def str_def)
  show ?thesis
    unfolding readImdbListResponse_def assms h
    by (auto simp: listItems_loop_0 at_Split_0 Let_def not_le split: sum.splits prod.splits)
qed

lemma demo_page_ls1:
  "map_of demo_site (imdbPathListExport (str ''ls1'')) = Some (200, header_filename, list_csv)"
  by (simp add: demo_site_def path_defs)

lemma demo_list_csv: "csv_ReadAll demo_env list_csv = Inr list_rows"
  by (simp add: demo_env_def demo_csv_ReadAll_def list_csv_def Split_def str_def list_rows_def)

lemma demo_header_filename:
  "header_filename \<noteq> []"
  "mime_ParseMediaType demo_env header_filename
     = Inr (str ''attachment'', [(str ''filename'', str ''My Watchlist.csv'')])"
  by (simp_all add: demo_env_def demo_ParseMediaType_def header_filename_def str_def)

text \<open>
  C3, as written, fails where it says that the parameters must include a filename: the
  export of list "ls3" is answered 200 with the header \<^verbatim>\<open>attachment; size=5\<close>, whose one
  parameter is not a filename, and \<^verbatim>\<open>ListGet\<close> returns a List, with the empty name and
  the empty slug.
\<close>

theorem ListGet_header_without_filename:
  "mime_ParseMediaType demo_env header_size = Inr (str ''attachment'', [(str ''size'', str ''5'')])
   \<and> fetch demo_env (imdbPathBase @ imdbPathListExport (str ''ls3''))
       = Some \<lparr>StatusCode = 200, Header_ContentDisposition = header_size, Body = list_csv,
               Request = \<lparr>req_Method = MethodGet,
                          req_URL = imdbPathBase @ imdbPathListExport (str ''ls3'')\<rparr>\<rparr>
   \<and> ListGet demo_env (str ''ls3'')
       = Ok \<lparr>ListName = [], ListId = str ''ls3'', ListItems = map listItem (drop 1 list_rows),
             IsWatchlist = False, TraktListSlug = []\<rparr>"
proof -
  have p: "map_of demo_site (imdbPathListExport (str ''ls3'')) = Some (200, header_size, list_csv)"
    by (simp add: demo_site_def path_defs)
  have m: "mime_ParseMediaType demo_env header_size
             = Inr (str ''attachment'', [(str ''size'', str ''5'')])"
    by (simp add: demo_env_def demo_ParseMediaType_def header_size_def header_filename_def str_def)
  have h: "header_size \<noteq> []"
    by (simp add: header_size_def str_def)
  have n: "param [(str ''size'', str ''5'')] (str ''filename'') = []"
    by (simp add: param_def str_def)
  have "ListGet demo_env (str ''ls3'')
          = readImdbListResponse demo_env
              \<lparr>StatusCode = 200, Header_ContentDisposition = header_size, Body = list_csv,
               Request = \<lparr>req_Method = MethodGet,
                          req_URL = imdbPathBase @ imdbPathListExport (str ''ls3'')\<rparr>\<rparr>
              (str ''ls3'')"
    by (rule ListGet_200 [OF demo_fetch [OF p]]) simp
  also have "\<dots> = Ok \<lparr>ListName = [], ListId = str ''ls3'',
                       ListItems = map listItem (drop 1 list_rows),
                       IsWatchlist = False, TraktListSlug = []\<rparr>"
    by (subst readImdbListResponse_rows [where csvData = list_rows])
       (simp_all add: demo_list_csv m h n buildTraktListName_def Fields_def ToLower_def
          ReplaceAllString_nonslug_def, simp add: list_rows_def)
  finally show ?thesis
    using m demo_fetch [OF p] by simp
qed

text \<open>
  C3, amended: when the request of \<^verbatim>\<open>ListGet\<close> is answered 200 and the body decodes,
  the call fails with a decode error, and returns no List, if the Content-Disposition
  header is missing or empty, does not parse as a media type, or has no parameter at
  all; otherwise it returns a List whose display name is the value of the filename
  parameter (the empty string when there is none) up to its first ".", and whose slug
  is \<^verbatim>\<open>buildTraktListName\<close> of the display name.
\<close>

theorem ListGet_name_from_header:
  assumes "fetch e (imdbPathBase @ imdbPathListExport listId) = Some r"
    and "StatusCode r = 200"
    and "csv_ReadAll e (Body r) = Inr csvData"
    and "\<forall>row \<in> set (drop 1 csvData). 8 \<le> length row"
  shows "(Header_ContentDisposition r = []
          \<or> isl (mime_ParseMediaType e (Header_ContentDisposition r))
          \<or> snd (projr (mime_ParseMediaType e (Header_ContentDisposition r))) = []
        \<longrightarrow> headerDecodeError (ListGet e listId))
    \<and> (Header_ContentDisposition r \<noteq> []
        \<and> mime_ParseMediaType e (Header_ContentDisposition r) = Inr (mediatype, params)
        \<and> params \<noteq> []
        \<longrightarrow> (\<exists>l. ListGet e listId = Ok l
               \<and> ListName l = takeWhile (\<lambda>c. c \<noteq> 46) (param params (str ''filename''))
               \<and> TraktListSlug l = buildTraktListName (unicode_ToLower e) (ListName l)))"
proof -
  have eq: "ListGet e listId = readImdbListResponse e r listId"
    using assms(1,2) by (rule ListGet_200)
  have rows: "\<not> (\<exists>row \<in> set (drop 1 csvData). length row < 8)"
    using assms(4) by (auto simp: not_less)
  show ?thesis
    unfolding eq readImdbListResponse_rows [OF assms(3)] if_not_P [OF rows]
    by (auto split: sum.splits prod.splits)
qed

theorem ListGet_name_from_header_witness:
  "(\<exists>l. ListGet demo_env (str ''ls1'') = Ok l \<and> ListName l = str ''My Watchlist''
        \<and> TraktListSlug l = str ''my-watchlist'')
   \<and> headerDecodeError (ListGet demo_env (str ''ls5''))"
proof -
  have p: "map_of demo_site (imdbPathListExport (str ''ls5'')) = Some (200, [], list_csv)"
    by (simp add: demo_site_def path_defs)
  have rows: "\<forall>row \<in> set (drop 1 list_rows). 8 \<le> length row"
    by (simp add: list_rows_def)
  have n: "takeWhile (\<lambda>c. c \<noteq> 46) (param [(str ''filename'', str ''My Watchlist.csv'')]
             (str ''filename'')) = str ''My Watchlist''"
    by (simp add: param_def str_def)
  have s: "buildTraktListName (unicode_ToLower demo_env) (str ''My Watchlist'')
             = str ''my-watchlist''"
    by (simp add: slug_defs demo_env_def)
  have a: "\<exists>l. ListGet demo_env (str ''ls1'') = Ok l \<and> ListName l = str ''My Watchlist''
        \<and> TraktListSlug l = str ''my-watchlist''"
    using ListGet_name_from_header [where csvData = list_rows
        and mediatype = "str ''attachment''"
        and params = "[(str ''filename'', str ''My Watchlist.csv'')]",
        OF demo_fetch [OF demo_page_ls1]]
      demo_header_filename rows
    by (auto simp: demo_list_csv n s)
  have b: "headerDecodeError (ListGet demo_env (str ''ls5''))"
    using ListGet_name_from_header [where csvData = list_rows, OF demo_fetch [OF p]] rows
    by (simp add: demo_list_csv)
  show ?thesis using a b by simp
qed

section \<open>Decoding the ratings export\<close>

lemma ratings_loop_0: "ratings_loop e 0 csvData [] = ratings_loop e 1 (drop 1 csvData) []"
  by (cases csvData) simp_all

lemma ratings_loop_good:
  assumes "0 < i" and "6 \<le> length row" and "parses e row"
  shows "ratings_loop e i (row # rest) acc
           = ratings_loop e (i + 1) rest (acc @ [ratingsItem e row])"
  using assms
  by (auto simp: at_def parses_def ratingsItem_def split: sum.splits)

lemma ratings_loop_app:
  "0 < i \<Longrightarrow> \<forall>x \<in> set pre. 6 \<le> length x \<and> parses e x \<Longrightarrow>
   ratings_loop e i (pre @ rest) acc
     = ratings_loop e (i + length pre) rest (acc @ map (ratingsItem e) pre)"
proof (induction pre arbitrary: i acc)
  case Nil
  show ?case by simp
next
  case (Cons x pre)
  have "ratings_loop e i ((x # pre) @ rest) acc
          = ratings_loop e (i + 1) (pre @ rest) (acc @ [ratingsItem e x])"
    using Cons.prems ratings_loop_good [of i x e "pre @ rest" acc] by simp
  also have "\<dots> = ratings_loop e (i + 1 + length pre) rest
                      ((acc @ [ratingsItem e x]) @ map (ratingsItem e) pre)"
    using Cons.prems by (intro Cons.IH) simp_all
  finally show ?case by simp
qed

lemma ratings_loop_bad:
  assumes "0 < i" and "\<not> parses e row"
  shows "ratings_loop e i (row # rest) acc =
     (if length row < 2 then Panic
      else case strconv_Atoi e (row ! 1) of
             Inl er \<Rightarrow>
               Err (Errorf (str ''failure parsing imdb rating value to integer'') (Some er))
           | Inr rating \<Rightarrow>
               if length row < 3 then Panic
               else case time_Parse e (str ''2006-01-02'') (row ! 2) of
                      Inl er \<Rightarrow> Err (Errorf (str ''failure parsing imdb rating date'') (Some er))
                    | Inr d \<Rightarrow> Panic)"
  using assms by (auto simp: at_def parses_def split: sum.splits)

lemma ratings_loop_short:
  assumes "0 < i" and "length row < 6"
  shows "ratings_loop e i (row # rest) acc =
     (if length row < 2 then Panic
      else case strconv_Atoi e (row ! 1) of
             Inl er \<Rightarrow>
               Err (Errorf (str ''failure parsing imdb rating value to integer'') (Some er))
           | Inr rating \<Rightarrow>
               if length row < 3 then Panic
               else case time_Parse e (str ''2006-01-02'') (row ! 2) of
                      Inl er \<Rightarrow> Err (Errorf (str ''failure parsing imdb rating date'') (Some er))
                    | Inr d \<Rightarrow> Panic)"
  using assms by (auto simp: at_def split: sum.splits)

lemma split_first_bad:
  assumes "\<exists>x \<in> set rows. \<not> P x"
  shows "\<exists>pre row post. rows = pre @ row # post \<and> (\<forall>x \<in> set pre. P x) \<and> \<not> P row"
  using assms
proof (induction rows)
  case Nil
  then show ?case by simp
next
  case (Cons x rows)
  show ?case
  proof (cases "P x")
    case True
    with Cons obtain pre row post where
      "rows = pre @ row # post" "\<forall>x \<in> set pre. P x" "\<not> P row"
      by auto
    then have "x # rows = (x # pre) @ row # post \<and> (\<forall>y \<in> set (x # pre). P y) \<and> \<not> P row"
      using True by simp
    then show ?thesis by blast
  next
    case False
    then have "x # rows = [] @ x # rows \<and> (\<forall>y \<in> set []. P y) \<and> \<not> P x"
      by simp
    then show ?thesis by blast
  qed
qed

lemma ratings_loop_ok:
  assumes "0 < i" and "\<forall>row \<in> set rows. 6 \<le> length row \<and> parses e row"
  shows "ratings_loop e i rows acc = Ok (acc @ map (ratingsItem e) rows)"
  using ratings_loop_app [OF assms, of "[]" acc] by simp

lemma ratings_loop_err:
  assumes "0 < i" and "\<forall>row \<in> set rows. 6 \<le> length row"
    and "\<exists>row \<in> set rows. \<not> parses e row"
  shows "ratingsDecodeError (ratings_loop e i rows acc)"
proof -
  from split_first_bad [OF assms(3)] obtain pre row post where
    s: "rows = pre @ row # post" and p: "\<forall>x \<in> set pre. parses e x" and b: "\<not> parses e row"
    by blast
  have len: "6 \<le> length row" and pl: "\<forall>x \<in> set pre. 6 \<le> length x \<and> parses e x"
    using assms(2) s p by auto
  have "ratings_loop e i rows acc
          = ratings_loop e (i + length pre) (row # post) (acc @ map (ratingsItem e) pre)"
    unfolding s using assms(1) pl by (rule ratings_loop_app)
  then show ?thesis
    using ratings_loop_bad [of "i + length pre" e row post] assms(1) b len
    by (auto simp: parses_def split: sum.splits)
qed

lemma ratings_loop_both:
  "ratings_loop e i rows acc = Ok items \<Longrightarrow>
   \<forall>it \<in> set acc. Rating it \<noteq> None \<and> RatingDate it \<noteq> None \<Longrightarrow>
   \<forall>it \<in> set items. Rating it \<noteq> None \<and> RatingDate it \<noteq> None"
proof (induction e i rows acc rule: ratings_loop.induct)
  case (1 e i ratings)
  then show ?case by simp
next
  case (2 e i row csvData ratings)
  show ?case
  proof (cases "0 < i")
    case False
    then show ?thesis using 2 by simp
  next
    case True
    then show ?thesis
      using 2(1,3,4)
      by (auto split: option.splits sum.splits)
  qed
qed

lemma readImdbRatingsResponse_rows:
  assumes "csv_ReadAll e (Body r) = Inr csvData"
  shows "readImdbRatingsResponse e r = ratings_loop e 1 (drop 1 csvData) []"
  by (simp add: readImdbRatingsResponse_def assms ratings_loop_0)

text \<open>
  C2, as written, fails where it says that an unparseable rating makes the call fail
  with a decode error: in the ratings export of user "ur2" the second data row has the
  rating "x", but the first data row has one field only, and the call panics on it
  (index out of range) before it reaches the second.
\<close>

theorem RatingsGet_short_row_before_bad_rating:
  "fetch demo_env (imdbPathBase @ imdbPathRatingsExport (str ''ur2''))
     = Some (demo_response (imdbPathRatingsExport (str ''ur2'')) 200 [] ratings_csv_short_then_bad)
   \<and> csv_ReadAll demo_env ratings_csv_short_then_bad
       = Inr [map str [''Const'', ''Your Rating'', ''Date Rated'', ''Title'', ''URL'',
                       ''Title Type''],
              [str ''tt0111161''],
              map str [''tt0944947'', ''x'', ''2021-12-24'', ''t'', ''u'', ''tvSeries'']]
   \<and> isl (strconv_Atoi demo_env (str ''x''))
   \<and> RatingsGet demo_env (demo_config (str ''ur2'') []) = Panic"
  by (simp add: client_defs path_defs demo_defs demo_response_def)

text \<open>
  C2, amended: for every ratings CSV response (status 200) in which every row but the
  first has at least 6 fields, \<^verbatim>\<open>RatingsGet\<close> skips the first row and maps every other
  row to an Item with id the field of index 0, rating the field of index 1 read by
  \<^verbatim>\<open>strconv.Atoi\<close>, rating date the field of index 2 read by \<^verbatim>\<open>time.Parse\<close> with the
  layout \<^verbatim>\<open>2006-01-02\<close>, and title type the field of index 5; if the rating or the date
  of any row does not parse, the call fails with a decode error and returns no Items.
  Every Item of a successful result carries a rating and a rating date.
\<close>

theorem RatingsGet_rows:
  assumes "fetch e (imdbPathBase @ imdbPathRatingsExport (UserId c)) = Some r"
    and "StatusCode r = 200"
    and "csv_ReadAll e (Body r) = Inr csvData"
    and "\<forall>row \<in> set (drop 1 csvData). 6 \<le> length row"
  shows "((\<forall>row \<in> set (drop 1 csvData). parses e row)
          \<longrightarrow> RatingsGet e c = Ok (map (ratingsItem e) (drop 1 csvData)))
    \<and> ((\<exists>row \<in> set (drop 1 csvData). \<not> parses e row)
          \<longrightarrow> ratingsDecodeError (RatingsGet e c))
    \<and> (\<forall>items. RatingsGet e c = Ok items
          \<longrightarrow> (\<forall>it \<in> set items. Rating it \<noteq> None \<and> RatingDate it \<noteq> None))"
proof -
  have eq: "RatingsGet e c = ratings_loop e 1 (drop 1 csvData) []"
    using RatingsGet_pass [OF assms(1)] assms(2) readImdbRatingsResponse_rows [OF assms(3)]
    by simp
  have a: "RatingsGet e c = Ok (map (ratingsItem e) (drop 1 csvData))"
    if "\<forall>row \<in> set (drop 1 csvData). parses e row"
    using ratings_loop_ok [of 1 "drop 1 csvData" e "[]"] assms(4) that by (simp add: eq)
  have b: "ratingsDecodeError (RatingsGet e c)"
    if "\<exists>row \<in> set (drop 1 csvData). \<not> parses e row"
    unfolding eq using _ assms(4) that by (rule ratings_loop_err) simp
  have d: "\<forall>it \<in> set items. Rating it \<noteq> None \<and> RatingDate it \<noteq> None"
    if "RatingsGet e c = Ok items" for items
    using ratings_loop_both [of e 1 "drop 1 csvData" "[]" items] that by (simp add: eq)
  show ?thesis
    using a b d by blast
qed

lemma demo_ratings_csv: "csv_ReadAll demo_env ratings_csv = Inr ratings_rows"
  by (simp add: demo_env_def demo_csv_ReadAll_def ratings_csv_def Split_def str_def
      ratings_rows_def)

lemma demo_ratings_csv_bad_date:
  "csv_ReadAll demo_env ratings_csv_bad_date = Inr ratings_rows_bad_date"
  by (simp add: demo_env_def demo_csv_ReadAll_def ratings_csv_bad_date_def Split_def str_def
      ratings_rows_bad_date_def)

lemma demo_ratings_items:
  "(\<forall>row \<in> set (drop 1 ratings_rows). 6 \<le> length row)
   \<and> (\<forall>row \<in> set (drop 1 ratings_rows). parses demo_env row)
   \<and> map (ratingsItem demo_env) (drop 1 ratings_rows)
       = [\<lparr>Id = str ''tt0111161'', TitleType = str ''movie'', Rating = Some 9,
            RatingDate = Some (2022, 5, 1)\<rparr>,
          \<lparr>Id = str ''tt0944947'', TitleType = str ''tvSeries'', Rating = Some 10,
            RatingDate = Some (2021, 12, 24)\<rparr>]"
  by (simp add: ratings_rows_def parses_def ratingsItem_def demo_env_def demo_Atoi_def
      demo_time_Parse_def digit_def number_def str_def)

lemma demo_ratings_bad_date:
  "(\<forall>row \<in> set (drop 1 ratings_rows_bad_date). 6 \<le> length row)
   \<and> (\<exists>row \<in> set (drop 1 ratings_rows_bad_date). \<not> parses demo_env row)"
  by (simp add: ratings_rows_bad_date_def parses_def demo_env_def demo_Atoi_def
      demo_time_Parse_def digit_def number_def str_def)

theorem RatingsGet_rows_witness:
  "RatingsGet demo_env (demo_config (str ''ur1'') [])
     = Ok [\<lparr>Id = str ''tt0111161'', TitleType = str ''movie'', Rating = Some 9,
             RatingDate = Some (2022, 5, 1)\<rparr>,
           \<lparr>Id = str ''tt0944947'', TitleType = str ''tvSeries'', Rating = Some 10,
             RatingDate = Some (2021, 12, 24)\<rparr>]
   \<and> ratingsDecodeError (RatingsGet demo_env (demo_config (str ''ur4'') []))"
proof -
  have p1: "map_of demo_site (imdbPathRatingsExport (UserId (demo_config (str ''ur1'') [])))
              = Some (200, [], ratings_csv)"
    by (simp add: demo_site_def demo_config_def path_defs)
  have p4: "map_of demo_site (imdbPathRatingsExport (UserId (demo_config (str ''ur4'') [])))
              = Some (200, [], ratings_csv_bad_date)"
    by (simp add: demo_site_def demo_config_def path_defs)
  have a: "RatingsGet demo_env (demo_config (str ''ur1'') [])
             = Ok (map (ratingsItem demo_env) (drop 1 ratings_rows))"
    using RatingsGet_rows [where csvData = ratings_rows, OF demo_fetch [OF p1]]
      demo_ratings_items
    by (simp add: demo_ratings_csv)
  have b: "ratingsDecodeError (RatingsGet demo_env (demo_config (str ''ur4'') []))"
    using RatingsGet_rows [where csvData = ratings_rows_bad_date, OF demo_fetch [OF p4]]
      demo_ratings_bad_date
    by (simp add: demo_ratings_csv_bad_date)
  show ?thesis
    using a b demo_ratings_items by simp
qed

section \<open>Records with too few fields\<close>

text \<open>
  C10, as written, fails for the ratings decoder: the ratings export of user "ur3" has
  the one data row \<^verbatim>\<open>tt0111161,x\<close>, of two fields, and the decoder returns the error of
  the unparseable rating; it does not panic.
\<close>

theorem ratings_short_row_decode_error:
  "csv_ReadAll demo_env ratings_csv_short_bad
     = Inr [map str [''Const'', ''Your Rating'', ''Date Rated'', ''Title'', ''URL'',
                     ''Title Type''],
            map str [''tt0111161'', ''x'']]
   \<and> ratingsDecodeError
        (readImdbRatingsResponse demo_env
           (demo_response (imdbPathRatingsExport (str ''ur3'')) 200 [] ratings_csv_short_bad))"
  by (simp add: client_defs path_defs demo_defs demo_response_def)

text \<open>
  C10, amended: the decoders read fixed indices without a bounds check, while the CSV
  reader accepts any number of fields per record. The list decoder panics exactly when
  some record but the first has fewer than 8 fields. The ratings decoder does not panic
  when every record but the first has at least 6 fields; at the first record after the
  header with fewer than 6 fields, the records before it decoding, it panics (index out
  of range) unless that record has a rating field that does not parse, or a rating that
  parses and a date field that does not: then it returns the decode error of that
  field.
\<close>

theorem decoders_short_rows:
  assumes "csv_ReadAll e (Body r) = Inr csvData"
  shows "(readImdbListResponse e r listId = Panic
            \<longleftrightarrow> (\<exists>row \<in> set (drop 1 csvData). length row < 8))
    \<and> ((\<forall>row \<in> set (drop 1 csvData). 6 \<le> length row)
          \<longrightarrow> readImdbRatingsResponse e r \<noteq> Panic)
    \<and> (drop 1 csvData = pre @ row # post \<and> (\<forall>x \<in> set pre. 6 \<le> length x \<and> parses e x)
        \<and> length row < 6
          \<longrightarrow> readImdbRatingsResponse e r =
               (if length row < 2 then Panic
                else case strconv_Atoi e (row ! 1) of
                       Inl er \<Rightarrow>
                         Err (Errorf (str ''failure parsing imdb rating value to integer'')
                                (Some er))
                     | Inr rating \<Rightarrow>
                         if length row < 3 then Panic
                         else case time_Parse e (str ''2006-01-02'') (row ! 2) of
                                Inl er \<Rightarrow>
                                  Err (Errorf (str ''failure parsing imdb rating date'')
                                         (Some er))
                              | Inr d \<Rightarrow> Panic))"
proof (intro conjI impI)
  show "readImdbListResponse e r listId = Panic
          \<longleftrightarrow> (\<exists>row \<in> set (drop 1 csvData). length row < 8)"
    unfolding readImdbListResponse_rows [OF assms]
    by (auto split: sum.splits prod.splits)
next
  assume len: "\<forall>row \<in> set (drop 1 csvData). 6 \<le> length row"
  have eq: "readImdbRatingsResponse e r = ratings_loop e 1 (drop 1 csvData) []"
    using assms by (rule readImdbRatingsResponse_rows)
  show "readImdbRatingsResponse e r \<noteq> Panic"
  proof (cases "\<forall>row \<in> set (drop 1 csvData). parses e row")
    case True
    then show ?thesis
      using ratings_loop_ok [of 1 "drop 1 csvData" e "[]"] len by (simp add: eq)
  next
    case False
    then have "ratingsDecodeError (ratings_loop e 1 (drop 1 csvData) [])"
      using len by (intro ratings_loop_err) auto
    then show ?thesis
      by (auto simp: eq)
  qed
next
  assume a: "drop 1 csvData = pre @ row # post
    \<and> (\<forall>x \<in> set pre. 6 \<le> length x \<and> parses e x) \<and> length row < 6"
  have "readImdbRatingsResponse e r = ratings_loop e 1 (pre @ row # post) []"
    using readImdbRatingsResponse_rows [OF assms] a by simp
  also have "\<dots> = ratings_loop e (1 + length pre) (row # post) ([] @ map (ratingsItem e) pre)"
    using a by (intro ratings_loop_app) simp_all
  finally show "readImdbRatingsResponse e r =
               (if length row < 2 then Panic
                else case strconv_Atoi e (row ! 1) of
                       Inl er \<Rightarrow>
                         Err (Errorf (str ''failure parsing imdb rating value to integer'')
                                (Some er))
                     | Inr rating \<Rightarrow>
                         if length row < 3 then Panic
                         else case time_Parse e (str ''2006-01-02'') (row ! 2) of
                                Inl er \<Rightarrow>
                                  Err (Errorf (str ''failure parsing imdb rating date'')
                                         (Some er))
                              | Inr d \<Rightarrow> Panic)"
    using a ratings_loop_short [of "1 + length pre" row e post "map (ratingsItem e) pre"]
    by simp
qed

lemma demo_short_csv:
  "csv_ReadAll demo_env list_csv_short = Inr list_rows_short"
  "csv_ReadAll demo_env ratings_csv_short_then_bad = Inr ratings_rows_short"
  by (simp_all add: demo_env_def demo_csv_ReadAll_def list_csv_short_def
      ratings_csv_short_then_bad_def Split_def str_def list_rows_short_def
      ratings_rows_short_def)

theorem decoders_short_rows_witness:
  "readImdbListResponse demo_env
     (demo_response (imdbPathListExport (str ''ls4'')) 200 header_filename list_csv_short)
     (str ''ls4'') = Panic
   \<and> readImdbRatingsResponse demo_env
       (demo_response (imdbPathRatingsExport (str ''ur2'')) 200 [] ratings_csv_short_then_bad)
       = Panic
   \<and> readImdbRatingsResponse demo_env
       (demo_response (imdbPathRatingsExport (str ''ur1'')) 200 [] ratings_csv) \<noteq> Panic"
proof -
  have a: "readImdbListResponse demo_env
     (demo_response (imdbPathListExport (str ''ls4'')) 200 header_filename list_csv_short)
     (str ''ls4'') = Panic"
    using decoders_short_rows [where csvData = list_rows_short and e = demo_env
        and r = "demo_response (imdbPathListExport (str ''ls4'')) 200 header_filename
                   list_csv_short" and listId = "str ''ls4''"]
    by (simp add: demo_response_def demo_short_csv) (simp add: list_rows_short_def)
  have b: "readImdbRatingsResponse demo_env
       (demo_response (imdbPathRatingsExport (str ''ur2'')) 200 [] ratings_csv_short_then_bad)
       = Panic"
    using decoders_short_rows [where csvData = ratings_rows_short and e = demo_env
        and r = "demo_response (imdbPathRatingsExport (str ''ur2'')) 200 []
                   ratings_csv_short_then_bad"
        and pre = "[]" and row = "[str ''tt0111161'']"
        and post = "[map str [''tt0944947'', ''x'', ''2021-12-24'', ''t'', ''u'', ''tvSeries'']]"]
    by (simp add: demo_response_def demo_short_csv) (simp add: ratings_rows_short_def)
  have c: "readImdbRatingsResponse demo_env
       (demo_response (imdbPathRatingsExport (str ''ur1'')) 200 [] ratings_csv) \<noteq> Panic"
    using decoders_short_rows [where csvData = ratings_rows and e = demo_env
        and r = "demo_response (imdbPathRatingsExport (str ''ur1'')) 200 [] ratings_csv"]
      demo_ratings_items
    by (simp add: demo_response_def demo_ratings_csv)
  show ?thesis
    using a b c by simp
qed

section \<open>Failed fetches in the catalog scan\<close>













section \<open>The items of a list export\<close>

text \<open>
  C7, as written, fails on a record with fewer than 8 fields: the export of list "ls4"
  is answered 200 with a header that parses and a body that the CSV reader accepts,
  whose one data row \<^verbatim>\<open>1,tt0111161\<close> has two fields; \<^verbatim>\<open>record[7]\<close> is out of range and
  \<^verbatim>\<open>ListGet\<close> panics, so that no row is mapped to an Item.
\<close>

theorem ListGet_short_row_panics:
  "fetch demo_env (imdbPathBase @ imdbPathListExport (str ''ls4''))
     = Some (demo_response (imdbPathListExport (str ''ls4'')) 200 header_filename list_csv_short)
   \<and> csv_ReadAll demo_env list_csv_short = Inr list_rows_short
   \<and> mime_ParseMediaType demo_env header_filename
       = Inr (str ''attachment'', [(str ''filename'', str ''My Watchlist.csv'')])
   \<and> ListGet demo_env (str ''ls4'') = Panic"
proof -
  have p: "map_of demo_site (imdbPathListExport (str ''ls4''))
             = Some (200, header_filename, list_csv_short)"
    by (simp add: demo_site_def path_defs)
  have f: "fetch demo_env (imdbPathBase @ imdbPathListExport (str ''ls4''))
     = Some (demo_response (imdbPathListExport (str ''ls4'')) 200 header_filename list_csv_short)"
    using demo_fetch [OF p] by (simp add: demo_response_def)
  have "ListGet demo_env (str ''ls4'')
          = readImdbListResponse demo_env
              (demo_response (imdbPathListExport (str ''ls4'')) 200 header_filename
                 list_csv_short) (str ''ls4'')"
    by (rule ListGet_200 [OF f]) (simp add: demo_response_def)
  also have "\<dots> = Panic"
    by (subst readImdbListResponse_rows [where csvData = list_rows_short])
       (simp_all add: demo_response_def demo_short_csv, simp add: list_rows_short_def)
  finally show ?thesis
    using f demo_short_csv(1) demo_header_filename(2) by simp
qed

text \<open>
  C7, amended: when the request of \<^verbatim>\<open>ListGet\<close> is answered 200 and the body is read as
  CSV with at least 8 fields in every record but the first, the call does not panic,
  and if the Content-Disposition header parses with at least one parameter it returns
  a List with one Item for each record but the first, in order, with id the field of
  index 1 and title type the field of index 7. Every List that the call returns after
  a 200 has exactly these Items, and no Item of it has a rating or a rating date.
\<close>

theorem ListGet_items:
  assumes "fetch e (imdbPathBase @ imdbPathListExport listId) = Some r"
    and "StatusCode r = 200"
    and "csv_ReadAll e (Body r) = Inr csvData"
  shows "((\<forall>row \<in> set (drop 1 csvData). 8 \<le> length row) \<longrightarrow>
            ListGet e listId \<noteq> Panic
            \<and> (Header_ContentDisposition r \<noteq> []
               \<and> mime_ParseMediaType e (Header_ContentDisposition r) = Inr (mediatype, params)
               \<and> params \<noteq> []
               \<longrightarrow> (\<exists>l. ListGet e listId = Ok l
                      \<and> ListItems l = map listItem (drop 1 csvData))))
    \<and> (\<forall>l. ListGet e listId = Ok l \<longrightarrow>
            ListItems l = map listItem (drop 1 csvData)
            \<and> (\<forall>row \<in> set (drop 1 csvData). 8 \<le> length row)
            \<and> (\<forall>it \<in> set (ListItems l). Rating it = None \<and> RatingDate it = None))"
proof -
  have eq: "ListGet e listId = readImdbListResponse e r listId"
    using assms(1,2) by (rule ListGet_200)
  show ?thesis
    unfolding eq readImdbListResponse_rows [OF assms(3)]
    by (auto simp: listItem_def not_le split: if_splits sum.splits prod.splits)
qed

theorem ListGet_items_witness:
  "\<exists>l. ListGet demo_env (str ''ls1'') = Ok l
       \<and> ListItems l
           = [\<lparr>Id = str ''tt0111161'', TitleType = str ''movie'', Rating = None,
                RatingDate = None\<rparr>,
              \<lparr>Id = str ''tt0944947'', TitleType = str ''tvSeries'', Rating = None,
                RatingDate = None\<rparr>]
       \<and> (\<forall>it \<in> set (ListItems l). Rating it = None \<and> RatingDate it = None)"
proof -
  have rows: "\<forall>row \<in> set (drop 1 list_rows). 8 \<le> length row"
    by (simp add: list_rows_def)
  have t: "(\<exists>l. ListGet demo_env (str ''ls1'') = Ok l
               \<and> ListItems l = map listItem (drop 1 list_rows))
           \<and> (\<forall>l. ListGet demo_env (str ''ls1'') = Ok l \<longrightarrow>
                 (\<forall>it \<in> set (ListItems l). Rating it = None \<and> RatingDate it = None))"
    using ListGet_items [where csvData = list_rows and mediatype = "str ''attachment''"
        and params = "[(str ''filename'', str ''My Watchlist.csv'')]",
        OF demo_fetch [OF demo_page_ls1]]
      demo_header_filename rows
    by (simp add: demo_list_csv)
  then obtain l where l: "ListGet demo_env (str ''ls1'') = Ok l"
    "ListItems l = map listItem (drop 1 list_rows)"
    by blast
  have "\<forall>it \<in> set (ListItems l). Rating it = None \<and> RatingDate it = None"
    using t l(1) by blast
  moreover have "map listItem (drop 1 list_rows)
           = [\<lparr>Id = str ''tt0111161'', TitleType = str ''movie'', Rating = None,
                RatingDate = None\<rparr>,
              \<lparr>Id = str ''tt0944947'', TitleType = str ''tvSeries'', Rating = None,
                RatingDate = None\<rparr>]"
    by (simp add: listItem_def list_rows_def)
  ultimately show ?thesis
    using l by auto
qed

section \<open>Initialization\<close>

lemma WatchlistIdScrape_config:
  "WatchlistIdScrape e c = Ok c' \<Longrightarrow>
   CookieAtMain c' = CookieAtMain c \<and> CookieUbidMain c' = CookieUbidMain c
   \<and> UserId c' = UserId c \<and> WatchlistIdScrape e d = Ok (d\<lparr>WatchlistId := WatchlistId c'\<rparr>)"
  by (auto simp: WatchlistIdScrape_def Let_def split: result.splits sum.splits)

lemma WatchlistIdScrape_fail:
  "\<not> isOk (WatchlistIdScrape e c) \<Longrightarrow> \<not> isOk (WatchlistIdScrape e d)"
  by (auto simp: WatchlistIdScrape_def Let_def split: result.splits sum.splits)

lemma UserIdScrape_config:
  "UserIdScrape e c = Ok c' \<Longrightarrow>
   WatchlistId c' = WatchlistId c \<and> UserIdScrape e d = Ok (d\<lparr>UserId := UserId c'\<rparr>)"
  by (auto simp: UserIdScrape_def Let_def split: result.splits sum.splits)

lemma hydrate_supplied:
  assumes "UserId c \<noteq> []" and "UserId c \<noteq> str ''scrape''"
  shows "hydrate e c =
     (case WatchlistIdScrape e c of
        Panic \<Rightarrow> Panic
      | Err er \<Rightarrow> Err (Errorf (str ''failure scraping imdb watchlist id'') (Some er))
      | Ok c' \<Rightarrow> Ok c')"
  using assms by (simp add: hydrate_def)

lemma hydrate_scrape:
  assumes "UserId c = [] \<or> UserId c = str ''scrape''"
  shows "hydrate e c =
     (case UserIdScrape e c of
        Panic \<Rightarrow> Panic
      | Err er \<Rightarrow> Err (Errorf (str ''failure scraping imdb user id'') (Some er))
      | Ok c1 \<Rightarrow>
          (case WatchlistIdScrape e c1 of
             Panic \<Rightarrow> Panic
           | Err er \<Rightarrow> Err (Errorf (str ''failure scraping imdb watchlist id'') (Some er))
           | Ok c2 \<Rightarrow> Ok c2))"
  using assms by (auto simp: hydrate_def split: result.splits)

lemma NewImdbClient_Ok:
  "NewImdbClient e c = Ok c' \<longleftrightarrow> setupCookieJar e c = Ok () \<and> hydrate e c = Ok c'"
  by (auto simp: NewImdbClient_def split: result.splits)

lemma hydrate_watchlist:
  "hydrate e (c\<lparr>WatchlistId := w\<rparr>) = hydrate e c"
proof -
  have u: "UserIdScrape e (c\<lparr>WatchlistId := w\<rparr>)
             = (case UserIdScrape e c of Ok c1 \<Rightarrow> Ok (c1\<lparr>WatchlistId := w\<rparr>) | x \<Rightarrow> x)"
    by (auto simp: UserIdScrape_def Let_def split: result.splits sum.splits)
  have wl: "WatchlistIdScrape e (d\<lparr>WatchlistId := w\<rparr>) = WatchlistIdScrape e d" for d
    by (auto simp: WatchlistIdScrape_def Let_def split: result.splits sum.splits)
  show ?thesis
    by (auto simp: hydrate_def u wl split: result.splits)
qed

text \<open>
  C9: \<^verbatim>\<open>NewImdbClient\<close> scrapes the account id exactly when the configured id is empty
  or "scrape". With any other id, the client keeps the id and construction succeeds
  whenever the cookie jar is set up and the watchlist id is scraped, whatever the
  profile page gives; with the empty id or "scrape", a client is constructed only if
  \<^verbatim>\<open>UserIdScrape\<close> succeeds, and it has the scraped id. The watchlist id of every client
  constructed is the scraped one, and the configured watchlist id has no effect on the
  outcome. If a resolution that is due fails, construction fails; if the cookie jar is
  set up and the resolutions succeed, a client is constructed.
\<close>

theorem NewImdbClient_bootstrap:
  "(UserId c \<noteq> [] \<and> UserId c \<noteq> str ''scrape'' \<longrightarrow>
      (\<forall>c'. NewImdbClient e c = Ok c' \<longrightarrow> UserId c' = UserId c)
      \<and> (setupCookieJar e c = Ok () \<and> isOk (WatchlistIdScrape e c)
           \<longrightarrow> isOk (NewImdbClient e c)))
   \<and> (UserId d = [] \<or> UserId d = str ''scrape'' \<longrightarrow>
      (\<forall>d'. NewImdbClient e d = Ok d' \<longrightarrow>
         (\<exists>d1. UserIdScrape e d = Ok d1 \<and> UserId d' = UserId d1))
      \<and> (\<not> isOk (UserIdScrape e d) \<longrightarrow> \<not> isOk (NewImdbClient e d))
      \<and> (setupCookieJar e d = Ok () \<and> isOk (UserIdScrape e d) \<and> isOk (WatchlistIdScrape e d)
           \<longrightarrow> isOk (NewImdbClient e d)))
   \<and> (\<forall>c'. NewImdbClient e c = Ok c' \<longrightarrow>
         (\<exists>c2. WatchlistIdScrape e c = Ok c2 \<and> WatchlistId c' = WatchlistId c2))
   \<and> NewImdbClient e (c\<lparr>WatchlistId := w\<rparr>) = NewImdbClient e c
   \<and> (\<not> isOk (WatchlistIdScrape e c) \<longrightarrow> \<not> isOk (NewImdbClient e c))"
proof (intro conjI impI allI)
  assume a: "UserId c \<noteq> [] \<and> UserId c \<noteq> str ''scrape''"
  show "UserId c' = UserId c" if "NewImdbClient e c = Ok c'" for c'
    using that a WatchlistIdScrape_config [of e c c' c]
    by (auto simp: NewImdbClient_Ok hydrate_supplied split: result.splits)
  show "isOk (NewImdbClient e c)"
    if "setupCookieJar e c = Ok () \<and> isOk (WatchlistIdScrape e c)"
    using that a
    by (cases "WatchlistIdScrape e c") (auto simp: NewImdbClient_def hydrate_supplied)
next
  assume a: "UserId d = [] \<or> UserId d = str ''scrape''"
  show "\<exists>d1. UserIdScrape e d = Ok d1 \<and> UserId d' = UserId d1"
    if "NewImdbClient e d = Ok d'" for d'
  proof -
    from that have h: "hydrate e d = Ok d'"
      by (simp add: NewImdbClient_Ok)
    then obtain d1 where u: "UserIdScrape e d = Ok d1" and w: "WatchlistIdScrape e d1 = Ok d'"
      using a by (auto simp: hydrate_scrape [OF a] split: result.splits)
    then show ?thesis
      using WatchlistIdScrape_config [OF w, of d1] by simp
  qed
  show "\<not> isOk (NewImdbClient e d)" if "\<not> isOk (UserIdScrape e d)"
    using that
    by (cases "UserIdScrape e d")
       (auto simp: NewImdbClient_def hydrate_scrape [OF a] split: result.splits)
  show "isOk (NewImdbClient e d)"
    if p: "setupCookieJar e d = Ok () \<and> isOk (UserIdScrape e d) \<and> isOk (WatchlistIdScrape e d)"
  proof -
    from p obtain d1 where u: "UserIdScrape e d = Ok d1"
      by (cases "UserIdScrape e d") auto
    from p obtain d2 where w: "WatchlistIdScrape e d = Ok d2"
      by (cases "WatchlistIdScrape e d") auto
    have "WatchlistIdScrape e d1 = Ok (d1\<lparr>WatchlistId := WatchlistId d2\<rparr>)"
      using WatchlistIdScrape_config [OF w, of d1] by simp
    then show ?thesis
      using p u by (simp add: NewImdbClient_def hydrate_scrape [OF a])
  qed
next
  fix c'
  assume n: "NewImdbClient e c = Ok c'"
  then have h: "hydrate e c = Ok c'"
    by (simp add: NewImdbClient_Ok)
  then obtain c1 where w: "WatchlistIdScrape e c1 = Ok c'"
    by (auto simp: hydrate_def split: if_splits result.splits)
  from WatchlistIdScrape_config [OF w, of c]
  show "\<exists>c2. WatchlistIdScrape e c = Ok c2 \<and> WatchlistId c' = WatchlistId c2"
    by simp
next
  show "NewImdbClient e (c\<lparr>WatchlistId := w\<rparr>) = NewImdbClient e c"
    by (auto simp: NewImdbClient_def hydrate_watchlist setupCookieJar_def
        split: result.splits option.splits)
next
  assume f: "\<not> isOk (WatchlistIdScrape e c)"
  have nw: "WatchlistIdScrape e x \<noteq> Ok y" for x y
    using WatchlistIdScrape_fail [OF f, of x] by auto
  have "hydrate e c \<noteq> Ok y" for y
    using nw by (auto simp: hydrate_def Let_def split: if_splits result.splits)
  then show "\<not> isOk (NewImdbClient e c)"
    by (auto simp: NewImdbClient_def split: result.splits)
qed

lemma demo_scrapes:
  "setupCookieJar demo_env c = Ok ()"
  "UserIdScrape demo_env c = Ok (c\<lparr>UserId := str ''ur1''\<rparr>)"
  "WatchlistIdScrape demo_env c = Ok (c\<lparr>WatchlistId := str ''ls9''\<rparr>)"
  by (simp_all add: setupCookieJar_def UserIdScrape_def WatchlistIdScrape_def doRequest_def
      path_defs demo_defs)

theorem NewImdbClient_bootstrap_witness:
  "(\<exists>c'. NewImdbClient demo_env (demo_config (str ''ur7'') (str ''zz'')) = Ok c'
         \<and> UserId c' = str ''ur7'' \<and> WatchlistId c' = str ''ls9'')
   \<and> (\<exists>d'. NewImdbClient demo_env (demo_config (str ''scrape'') (str ''zz'')) = Ok d'
         \<and> UserId d' = str ''ur1'' \<and> WatchlistId d' = str ''ls9'')
   \<and> \<not> isOk (NewImdbClient forbidden_env (demo_config (str ''ur7'') (str ''zz'')))
   \<and> \<not> isOk (NewImdbClient forbidden_env (demo_config (str ''scrape'') (str ''zz'')))"
proof -
  define c where "c = demo_config (str ''ur7'') (str ''zz'')"
  define d where "d = demo_config (str ''scrape'') (str ''zz'')"
  have ic: "UserId c \<noteq> [] \<and> UserId c \<noteq> str ''scrape''" and uc: "UserId c = str ''ur7''"
    and id: "UserId d = [] \<or> UserId d = str ''scrape''"
    by (simp_all add: c_def d_def demo_config_def str_def)
  have jar: "setupCookieJar demo_env c = Ok ()" "setupCookieJar demo_env d = Ok ()"
    by (rule demo_scrapes(1))+
  have wc: "isOk (WatchlistIdScrape demo_env c)" "isOk (WatchlistIdScrape demo_env d)"
    and ud: "isOk (UserIdScrape demo_env d)"
    by (simp_all add: demo_scrapes(2,3))
  have wid: "WatchlistId c2 = str ''ls9''" if "WatchlistIdScrape demo_env x = Ok c2" for x c2
    using that by (auto simp: demo_scrapes(3))
  have uid: "UserId d1 = str ''ur1''" if "UserIdScrape demo_env x = Ok d1" for x d1
    using that by (auto simp: demo_scrapes(2))
  note t = NewImdbClient_bootstrap [of c demo_env d "str ''zz''"]
  have "isOk (NewImdbClient demo_env c)"
    using t ic jar wc by blast
  then obtain c' where c': "NewImdbClient demo_env c = Ok c'"
    by (cases "NewImdbClient demo_env c") auto
  have a1: "UserId c' = UserId c"
    using t ic c' by blast
  obtain c2 where "WatchlistIdScrape demo_env c = Ok c2" "WatchlistId c' = WatchlistId c2"
    using t c' by blast
  then have a2: "WatchlistId c' = str ''ls9''"
    using wid by simp
  have "isOk (NewImdbClient demo_env d)"
    using t id jar wc ud by blast
  then obtain d' where d': "NewImdbClient demo_env d = Ok d'"
    by (cases "NewImdbClient demo_env d") auto
  obtain d1 where "UserIdScrape demo_env d = Ok d1" "UserId d' = UserId d1"
    using t id d' by blast
  then have b1: "UserId d' = str ''ur1''"
    using uid by simp
  obtain d2 where "WatchlistIdScrape demo_env d = Ok d2" "WatchlistId d' = WatchlistId d2"
    using NewImdbClient_bootstrap [of d demo_env d "str ''zz''"] d' by blast
  then have b2: "WatchlistId d' = str ''ls9''"
    using wid by simp
  have "AuthorizationError (UserIdScrape forbidden_env d)"
    "AuthorizationError (WatchlistIdScrape forbidden_env c)"
    by (simp_all add: UserIdScrape_403 WatchlistIdScrape_403 forbidden_status)
  then have f: "\<not> isOk (UserIdScrape forbidden_env d)"
    "\<not> isOk (WatchlistIdScrape forbidden_env c)"
    by (auto elim: AuthorizationError.elims)
  have n1: "\<not> isOk (NewImdbClient forbidden_env c)"
    using NewImdbClient_bootstrap [of c forbidden_env d "str ''zz''"] f(2) by blast
  have n2: "\<not> isOk (NewImdbClient forbidden_env d)"
    using NewImdbClient_bootstrap [of c forbidden_env d "str ''zz''"] f(1) id by blast
  show ?thesis
    using c' a1 a2 d' b1 b2 n1 n2 uc unfolding c_def d_def by simp
qed

end
